theory Spec2Isabelle
  imports Complex_Main "HOL-Library.Char_ord" "HOL-Library.List_Lexorder"
begin

section \<open>Numbers as pandas holds them\<close>

text \<open>
  Every numeric column of a policy table with rows is a float64 column, and the columns and
  scalars the reserve code computes from it are float64 as well (the scalars of the stress
  test on a table without rows are Python numbers, see there). A value is a finite number,
  one of the two infinities, or NaN (which is also how pandas stores a missing cell).
  Finite values are kept as exact rationals: binary rounding, overflow to infinity and the
  sign of zero are not represented. What is represented is what the ratio code
  depends on: division by zero gives an infinity or NaN and raises nothing (numpy semantics,
  warnings being silenced at the top of the module), NaN makes every comparison false, and
  \<open>sum\<close>, \<open>mean\<close>, \<open>count\<close> and \<open>max\<close> skip NaN.
\<close>

datatype float64 = Fin rat | PosInf | NegInf | NaN

fun is_fin :: "float64 \<Rightarrow> bool" where
  "is_fin (Fin _) = True"
| "is_fin _ = False"

fun the_fin :: "float64 \<Rightarrow> rat" where
  "the_fin (Fin x) = x"
| "the_fin _ = 0"

fun fl_lt :: "float64 \<Rightarrow> float64 \<Rightarrow> bool" where
  "fl_lt NaN _ = False"
| "fl_lt _ NaN = False"
| "fl_lt (Fin a) (Fin b) = (a < b)"
| "fl_lt NegInf NegInf = False"
| "fl_lt NegInf _ = True"
| "fl_lt _ NegInf = False"
| "fl_lt PosInf _ = False"
| "fl_lt _ PosInf = True"

definition fl_gt :: "float64 \<Rightarrow> float64 \<Rightarrow> bool" where
  "fl_gt a b = fl_lt b a"

definition fl_le :: "float64 \<Rightarrow> float64 \<Rightarrow> bool" where
  "fl_le a b = (a \<noteq> NaN \<and> b \<noteq> NaN \<and> \<not> fl_lt b a)"

definition fl_ge :: "float64 \<Rightarrow> float64 \<Rightarrow> bool" where
  "fl_ge a b = fl_le b a"

fun fl_neg :: "float64 \<Rightarrow> float64" where
  "fl_neg (Fin a) = Fin (- a)"
| "fl_neg PosInf = NegInf"
| "fl_neg NegInf = PosInf"
| "fl_neg NaN = NaN"

fun fl_add :: "float64 \<Rightarrow> float64 \<Rightarrow> float64" where
  "fl_add NaN _ = NaN"
| "fl_add _ NaN = NaN"
| "fl_add (Fin a) (Fin b) = Fin (a + b)"
| "fl_add PosInf NegInf = NaN"
| "fl_add NegInf PosInf = NaN"
| "fl_add PosInf _ = PosInf"
| "fl_add _ PosInf = PosInf"
| "fl_add NegInf _ = NegInf"
| "fl_add _ NegInf = NegInf"

definition fl_sub :: "float64 \<Rightarrow> float64 \<Rightarrow> float64" where
  "fl_sub a b = fl_add a (fl_neg b)"

fun fl_sign :: "float64 \<Rightarrow> int" where
  "fl_sign (Fin a) = (if a < 0 then - 1 else if a = 0 then 0 else 1)"
| "fl_sign PosInf = 1"
| "fl_sign NegInf = - 1"
| "fl_sign NaN = 0"

definition signed_inf :: "int \<Rightarrow> float64" where
  "signed_inf s = (if s = 0 then NaN else if 0 < s then PosInf else NegInf)"

fun fl_mul :: "float64 \<Rightarrow> float64 \<Rightarrow> float64" where
  "fl_mul NaN _ = NaN"
| "fl_mul _ NaN = NaN"
| "fl_mul (Fin a) (Fin b) = Fin (a * b)"
| "fl_mul a b = signed_inf (fl_sign a * fl_sign b)"

text \<open>
  Division as numpy does it on float64: a finite nonzero number over zero is an infinity
  with the sign of the numerator, zero over zero is NaN, a finite number over an infinity is
  zero, an infinity over an infinity is NaN. Nothing is raised.
\<close>

fun fl_div :: "float64 \<Rightarrow> float64 \<Rightarrow> float64" where
  "fl_div NaN _ = NaN"
| "fl_div _ NaN = NaN"
| "fl_div (Fin a) (Fin b) = (if b = 0 then signed_inf (fl_sign (Fin a)) else Fin (a / b))"
| "fl_div (Fin a) _ = Fin 0"
| "fl_div a (Fin b) = signed_inf (fl_sign a * (if b < 0 then - 1 else 1))"
| "fl_div _ _ = NaN"

text \<open>A cell as a CSV file gives it: a finite number, or empty.\<close>

definition fin_or_nan :: "float64 \<Rightarrow> bool" where
  "fin_or_nan x = (x = NaN \<or> is_fin x)"

text \<open>\<open>Series.fillna(v)\<close> on one cell.\<close>

definition fillna :: "float64 \<Rightarrow> float64 \<Rightarrow> float64" where
  "fillna v x = (if x = NaN then v else x)"

text \<open>The reductions of pandas, all with \<open>skipna=True\<close>, the default.\<close>

definition notna :: "float64 list \<Rightarrow> float64 list" where
  "notna xs = filter (\<lambda>x. x \<noteq> NaN) xs"

definition sum_skipna :: "float64 list \<Rightarrow> float64" where
  "sum_skipna xs = foldl fl_add (Fin 0) (notna xs)"

definition count_notna :: "float64 list \<Rightarrow> nat" where
  "count_notna xs = length (notna xs)"

definition mean_skipna :: "float64 list \<Rightarrow> float64" where
  "mean_skipna xs =
     (if count_notna xs = 0 then NaN
      else fl_div (sum_skipna xs) (Fin (of_nat (count_notna xs))))"

definition fl_max :: "float64 \<Rightarrow> float64 \<Rightarrow> float64" where
  "fl_max a b = (if fl_lt a b then b else a)"

definition max_skipna :: "float64 list \<Rightarrow> float64" where
  "max_skipna xs = (case notna xs of [] \<Rightarrow> NaN | y # ys \<Rightarrow> foldl fl_max y ys)"

text \<open>
  \<open>round(2)\<close>: numpy scales by 100, rounds to the nearest integer with ties to the even
  one, and scales back. Infinities and NaN pass through. The product with 100 is exact here
  as all arithmetic is, where numpy rounds it to a float64 first: a value whose hundredfold
  lies within that rounding error of a half-integer (2.675, 1.015) can come out one hundredth
  apart in the code. The statements below use the rounding only where both agree: on 0, on
  whole numbers, and on values such as 100.004 that are far from a half-integer.
\<close>

definition rint :: "rat \<Rightarrow> int" where
  "rint x =
     (let f = \<lfloor>x\<rfloor>; d = x - of_int f
      in if d < 1 / 2 then f else if 1 / 2 < d then f + 1 else if even f then f else f + 1)"

fun round2 :: "float64 \<Rightarrow> float64" where
  "round2 (Fin x) = Fin (of_int (rint (x * 100)) / 100)"
| "round2 x = x"

section \<open>The policy table\<close>

text \<open>
  One row of the input table, with the columns the scoring and reserve code reads.
  A text cell that is missing is \<open>None\<close>. The other columns of the CSV file are never read
  by the functions below.
\<close>

record policy =
  Age :: float64
  Previous_Claims :: float64
  Health_Score :: float64
  Credit_Score :: float64
  Smoking_Status :: "string option"
  Exercise_Frequency :: "string option"
  Premium_Amount :: float64

section \<open>Risk scoring (reserve\_monitoring.py)\<close>

text \<open>
  The body of the loop of \<open>_calculate_risk_score\<close>: \<open>score\<close> starts at 0 and each
  \<open>if\<close>/\<open>elif\<close> block adds to it, in the order of the source.
\<close>

definition risk_score_row :: "policy \<Rightarrow> int" where
  "risk_score_row row =
     (let score = 0;
          score = (if fl_lt (Age row) (Fin 25) \<or> fl_gt (Age row) (Fin 65) then score + 2
                   else if fl_le (Fin 25) (Age row) \<and> fl_le (Age row) (Fin 35) then score + 1
                   else score);
          score = (if fl_gt (Previous_Claims row) (Fin 2) then score + 3
                   else if fl_gt (Previous_Claims row) (Fin 0) then score + 1
                   else score);
          score = (if fl_lt (Health_Score row) (Fin 20) then score + 2
                   else if fl_lt (Health_Score row) (Fin 40) then score + 1
                   else score);
          score = (if fl_lt (Credit_Score row) (Fin 500) then score + 2
                   else if fl_lt (Credit_Score row) (Fin 650) then score + 1
                   else score);
          score = (if Smoking_Status row = Some ''Yes'' then score + 2 else score);
          score = (if Exercise_Frequency row = Some ''Rarely'' then score + 1 else score)
      in score)"

definition calculate_risk_score :: "policy list \<Rightarrow> int list" where
  "calculate_risk_score df = map risk_score_row df"

definition categorize_risk :: "int \<Rightarrow> string" where
  "categorize_risk score =
     (if score \<le> 2 then ''Low''
      else if score \<le> 4 then ''Medium''
      else if score \<le> 6 then ''High''
      else ''Very High'')"

section \<open>Risk category (data\_etl\_analysis.py)\<close>

text \<open>
  \<open>_calculate_risk_category\<close> repeats the scoring loop and appends the category itself.
\<close>

definition risk_category_row :: "policy \<Rightarrow> string" where
  "risk_category_row row =
     (let score = 0;
          score = (if fl_lt (Age row) (Fin 25) \<or> fl_gt (Age row) (Fin 65) then score + 2
                   else if fl_le (Fin 25) (Age row) \<and> fl_le (Age row) (Fin 35) then score + 1
                   else score);
          score = (if fl_gt (Previous_Claims row) (Fin 2) then score + 3
                   else if fl_gt (Previous_Claims row) (Fin 0) then score + 1
                   else score);
          score = (if fl_lt (Health_Score row) (Fin 20) then score + 2
                   else if fl_lt (Health_Score row) (Fin 40) then score + 1
                   else score);
          score = (if fl_lt (Credit_Score row) (Fin 500) then score + 2
                   else if fl_lt (Credit_Score row) (Fin 650) then score + 1
                   else score);
          score = (if Smoking_Status row = Some ''Yes'' then score + 2 else score);
          score = (if Exercise_Frequency row = Some ''Rarely'' then score + 1 else score)
      in if score \<le> (2::int) then ''Low''
         else if score \<le> 4 then ''Medium''
         else if score \<le> 6 then ''High''
         else ''Very High'')"

definition calculate_risk_category :: "policy list \<Rightarrow> string list" where
  "calculate_risk_category df = map risk_category_row df"

section \<open>The scoring rule as the specification words it\<close>

definition spec_age_points :: "float64 \<Rightarrow> int" where
  "spec_age_points age =
     (if fl_lt age (Fin 25) \<or> fl_gt age (Fin 65) then 2
      else if fl_le (Fin 25) age \<and> fl_le age (Fin 35) then 1 else 0)"

definition spec_claims_points :: "float64 \<Rightarrow> int" where
  "spec_claims_points c =
     (if fl_gt c (Fin 2) then 3 else if fl_lt (Fin 0) c \<and> fl_le c (Fin 2) then 1 else 0)"

definition spec_health_points :: "float64 \<Rightarrow> int" where
  "spec_health_points h =
     (if fl_lt h (Fin 20) then 2 else if fl_le (Fin 20) h \<and> fl_lt h (Fin 40) then 1 else 0)"

definition spec_credit_points :: "float64 \<Rightarrow> int" where
  "spec_credit_points c =
     (if fl_lt c (Fin 500) then 2 else if fl_le (Fin 500) c \<and> fl_lt c (Fin 650) then 1 else 0)"

definition spec_smoking_points :: "string option \<Rightarrow> int" where
  "spec_smoking_points s = (if s = Some ''Yes'' then 2 else 0)"

definition spec_exercise_points :: "string option \<Rightarrow> int" where
  "spec_exercise_points e = (if e = Some ''Rarely'' then 1 else 0)"

definition spec_risk_score :: "policy \<Rightarrow> int" where
  "spec_risk_score row =
     spec_age_points (Age row) + spec_claims_points (Previous_Claims row)
     + spec_health_points (Health_Score row) + spec_credit_points (Credit_Score row)
     + spec_smoking_points (Smoking_Status row) + spec_exercise_points (Exercise_Frequency row)"

definition spec_risk_category :: "int \<Rightarrow> string" where
  "spec_risk_category score =
     (if score \<le> 2 then ''Low''
      else if 2 < score \<and> score \<le> 4 then ''Medium''
      else if 4 < score \<and> score \<le> 6 then ''High''
      else ''Very High'')"

text \<open>The order of the four bands, Low below Medium below High below Very High.\<close>

definition category_rank :: "string \<Rightarrow> nat" where
  "category_rank c =
     (if c = ''Low'' then 0 else if c = ''Medium'' then 1 else if c = ''High'' then 2 else 3)"

section \<open>Data preparation (reserve\_monitoring.py, load\_and\_prepare\_data)\<close>

text \<open>
  The table after enrichment: the input columns and the three derived ones.
  \<open>Policy Duration Years\<close> is derived from the wall clock and is read by no computation
  modelled here, so the column is left out.
\<close>

record enriched = policy +
  Risk_Score :: int
  Risk_Category :: string
  Loss_Ratio :: float64

text \<open>
  \<open>load_and_prepare_data\<close>, row by row. The fills that need a whole column (the medians of
  Age, Annual Income, Health Score and Credit Score) are taken as applied already: the table
  given here is the table after them, and a column that is entirely missing stays NaN as it
  does in pandas. The fill of Previous Claims with 0, the score, the category and the loss
  ratio with its \<open>fillna(0)\<close> are the steps of the source. Premium Amount is never filled.
\<close>

definition prepare_row :: "policy \<Rightarrow> enriched" where
  "prepare_row row0 =
     (let row = row0\<lparr>Previous_Claims := fillna (Fin 0) (Previous_Claims row0)\<rparr>;
          score = risk_score_row row;
          category = categorize_risk score;
          loss_ratio = fl_div (fl_mul (Previous_Claims row) (Fin 1000)) (Premium_Amount row);
          loss_ratio = fillna (Fin 0) loss_ratio
      in \<lparr>Age = Age row, Previous_Claims = Previous_Claims row,
          Health_Score = Health_Score row, Credit_Score = Credit_Score row,
          Smoking_Status = Smoking_Status row, Exercise_Frequency = Exercise_Frequency row,
          Premium_Amount = Premium_Amount row,
          Risk_Score = score, Risk_Category = category, Loss_Ratio = loss_ratio\<rparr>)"

definition load_and_prepare_data :: "policy list \<Rightarrow> enriched list" where
  "load_and_prepare_data table = map prepare_row table"

section \<open>Aggregation by risk category\<close>

text \<open>
  \<open>df.groupby('Risk Category').agg({...}).round(2)\<close>: one row per category that occurs in
  the table, in sorted key order; \<open>sum\<close>, \<open>mean\<close> and \<open>count\<close> skip NaN cells, and every
  aggregate is rounded to two decimals (the count, an integer column, is unchanged by it).
  The table \<open>df\<close> of this and the following sections is \<open>self.df\<close>, the table that
  \<open>load_and_prepare_data\<close> returned. \<open>Avg Duration\<close>, the mean of the column that is left
  out, is left out with it.
\<close>

record category_aggregate =
  Category :: string
  Total_Premiums :: float64
  Avg_Premium :: float64
  Policy_Count :: nat
  Total_Claims :: float64
  Avg_Loss_Ratio :: float64

definition group_keys :: "enriched list \<Rightarrow> string list" where
  "group_keys df = sort (remdups (map Risk_Category df))"

definition group_rows :: "enriched list \<Rightarrow> string \<Rightarrow> enriched list" where
  "group_rows df k = filter (\<lambda>r. Risk_Category r = k) df"

definition agg_group :: "enriched list \<Rightarrow> string \<Rightarrow> category_aggregate" where
  "agg_group df k =
     (let g = group_rows df k
      in \<lparr>Category = k,
          Total_Premiums = sum_skipna (map Premium_Amount g),
          Avg_Premium = mean_skipna (map Premium_Amount g),
          Policy_Count = count_notna (map Premium_Amount g),
          Total_Claims = sum_skipna (map Previous_Claims g),
          Avg_Loss_Ratio = mean_skipna (map Loss_Ratio g)\<rparr>)"

definition round_agg :: "category_aggregate \<Rightarrow> category_aggregate" where
  "round_agg a =
     \<lparr>Category = Category a,
      Total_Premiums = round2 (Total_Premiums a),
      Avg_Premium = round2 (Avg_Premium a),
      Policy_Count = Policy_Count a,
      Total_Claims = round2 (Total_Claims a),
      Avg_Loss_Ratio = round2 (Avg_Loss_Ratio a)\<rparr>"

definition groupby_agg :: "enriched list \<Rightarrow> category_aggregate list" where
  "groupby_agg df = map (\<lambda>k. round_agg (agg_group df k)) (group_keys df)"

text \<open>
  Tables of at most a million policies whose premiums are whole numbers of at most a million
  (or missing). In this range every sum of premiums is a whole number below \<open>2^53 / 100\<close>, so
  the float64 sums and the rounding to two decimals are exact and the exact arithmetic of
  this theory is the arithmetic of the code.
\<close>

fun whole_cell :: "float64 \<Rightarrow> bool" where
  "whole_cell (Fin x) = (of_int \<lfloor>x\<rfloor> = x \<and> \<bar>x\<bar> \<le> 1000000)"
| "whole_cell NaN = True"
| "whole_cell _ = False"

definition whole_premiums :: "enriched list \<Rightarrow> bool" where
  "whole_premiums df =
     (length df \<le> 1000000 \<and> list_all (\<lambda>r. whole_cell (Premium_Amount r)) df)"

section \<open>Reserve requirements (calculate\_reserve\_requirements)\<close>

record reserve_requirement = category_aggregate +
  Premium_Based_Reserves :: float64
  Claims_Based_Reserves :: float64
  Risk_Adjusted_Reserves :: float64
  IBNR_Reserves :: float64
  Total_Required_Reserves :: float64
  Actual_Claims_Exposure :: float64
  Reserve_Adequacy :: float64
  Reserve_Ratio :: float64

definition risk_multipliers :: "(string \<times> rat) list" where
  "risk_multipliers =
     [(''Low'', 10 / 100), (''Medium'', 15 / 100), (''High'', 25 / 100), (''Very High'', 35 / 100)]"

text \<open>\<open>risk_multipliers.get(category, 0.15)\<close>.\<close>

definition risk_multiplier :: "string \<Rightarrow> rat" where
  "risk_multiplier c = (case map_of risk_multipliers c of None \<Rightarrow> 15 / 100 | Some m \<Rightarrow> m)"

definition reserve_row :: "category_aggregate \<Rightarrow> reserve_requirement" where
  "reserve_row a =
     (let premium_based = fl_mul (Total_Premiums a) (Fin (15 / 100));
          claims_based = fl_mul (fl_mul (Total_Claims a) (Fin 1000)) (Fin 3);
          risk_adjusted = fl_mul (Total_Premiums a) (Fin (risk_multiplier (Category a)));
          ibnr = fl_mul (Total_Premiums a) (Fin (5 / 100));
          total_required = max_skipna [premium_based, claims_based, risk_adjusted, ibnr];
          exposure = fl_mul (Total_Claims a) (Fin 1000);
          adequacy = fl_sub total_required exposure;
          ratio = fl_div total_required exposure
      in \<lparr>Category = Category a, Total_Premiums = Total_Premiums a,
          Avg_Premium = Avg_Premium a, Policy_Count = Policy_Count a,
          Total_Claims = Total_Claims a, Avg_Loss_Ratio = Avg_Loss_Ratio a,
          Premium_Based_Reserves = premium_based, Claims_Based_Reserves = claims_based,
          Risk_Adjusted_Reserves = risk_adjusted, IBNR_Reserves = ibnr,
          Total_Required_Reserves = total_required, Actual_Claims_Exposure = exposure,
          Reserve_Adequacy = adequacy, Reserve_Ratio = ratio\<rparr>)"

text \<open>The four columns the row-wise maximum is taken over.\<close>

definition reserve_candidates :: "reserve_requirement \<Rightarrow> float64 list" where
  "reserve_candidates r =
     [Premium_Based_Reserves r, Claims_Based_Reserves r, Risk_Adjusted_Reserves r,
      IBNR_Reserves r]"

definition calculate_reserve_requirements :: "enriched list \<Rightarrow> reserve_requirement list" where
  "calculate_reserve_requirements df = map reserve_row (groupby_agg df)"

section \<open>Portfolio capital adequacy (calculate\_capital\_adequacy\_ratio)\<close>

record capital_ratios =
  Sum_Required_Reserves :: float64
  Sum_Actual_Exposure :: float64
  Sum_Premiums :: float64
  Reserve_Coverage_Ratio :: float64
  Premium_Coverage_Ratio :: float64
  Overall_Adequacy :: float64

definition calculate_capital_adequacy_ratio :: "reserve_requirement list \<Rightarrow> capital_ratios" where
  "calculate_capital_adequacy_ratio reserve_analysis =
     (let total_required_reserves = sum_skipna (map Total_Required_Reserves reserve_analysis);
          total_actual_exposure = sum_skipna (map Actual_Claims_Exposure reserve_analysis);
          total_premiums = sum_skipna (map Total_Premiums reserve_analysis)
      in \<lparr>Sum_Required_Reserves = total_required_reserves,
          Sum_Actual_Exposure = total_actual_exposure,
          Sum_Premiums = total_premiums,
          Reserve_Coverage_Ratio =
            (if fl_gt total_actual_exposure (Fin 0)
             then fl_div total_required_reserves total_actual_exposure else Fin 0),
          Premium_Coverage_Ratio =
            (if fl_gt total_premiums (Fin 0)
             then fl_div total_required_reserves total_premiums else Fin 0),
          Overall_Adequacy = fl_sub total_required_reserves total_actual_exposure\<rparr>)"

section \<open>Stress testing (perform\_stress\_testing)\<close>

text \<open>
  The scalars of the stress test are of two kinds. The sum of a column that has rows is a
  numpy scalar. A table without rows has columns of dtype object, and the sum of such a
  column is the Python integer 0. The multipliers and the constants 1000 and 0.15 are Python
  numbers. An operation on two Python numbers is a Python operation, and Python's division
  raises ZeroDivisionError on a zero divisor; an operation with a numpy scalar on either side
  is a numpy operation, and numpy's division returns an infinity or NaN instead.
\<close>

datatype error = ZeroDivisionError

datatype scalar = PyNum rat | NpFloat float64

fun as_float64 :: "scalar \<Rightarrow> float64" where
  "as_float64 (PyNum a) = Fin a"
| "as_float64 (NpFloat x) = x"

fun sc_mul :: "scalar \<Rightarrow> scalar \<Rightarrow> scalar" where
  "sc_mul (PyNum a) (PyNum b) = PyNum (a * b)"
| "sc_mul x y = NpFloat (fl_mul (as_float64 x) (as_float64 y))"

fun sc_sub :: "scalar \<Rightarrow> scalar \<Rightarrow> scalar" where
  "sc_sub (PyNum a) (PyNum b) = PyNum (a - b)"
| "sc_sub x y = NpFloat (fl_sub (as_float64 x) (as_float64 y))"

fun sc_div :: "scalar \<Rightarrow> scalar \<Rightarrow> error + scalar" where
  "sc_div (PyNum a) (PyNum b) = (if b = 0 then Inl ZeroDivisionError else Inr (PyNum (a / b)))"
| "sc_div x y = Inr (NpFloat (fl_div (as_float64 x) (as_float64 y)))"

definition sc_gt :: "scalar \<Rightarrow> scalar \<Rightarrow> bool" where
  "sc_gt x y = fl_gt (as_float64 x) (as_float64 y)"

definition sc_ge :: "scalar \<Rightarrow> scalar \<Rightarrow> bool" where
  "sc_ge x y = fl_ge (as_float64 x) (as_float64 y)"

text \<open>\<open>Series.sum()\<close> of a column of the table.\<close>

definition column_sum :: "float64 list \<Rightarrow> scalar" where
  "column_sum xs = (if xs = [] then PyNum 0 else NpFloat (sum_skipna xs))"

record base_metrics =
  total_premiums :: scalar
  total_claims :: scalar
  total_policies :: nat
  avg_loss_ratio :: float64

record scenario_params =
  claims_multiplier :: rat
  premium_multiplier :: rat
  description :: string

text \<open>The dictionary of scenarios, in insertion order, which is the order of iteration.\<close>

definition scenarios :: "(string \<times> scenario_params) list" where
  "scenarios =
     [(''Base Case'',
         \<lparr>claims_multiplier = 1, premium_multiplier = 1,
          description = ''Current baseline scenario''\<rparr>),
      (''Mild Stress'',
         \<lparr>claims_multiplier = 12 / 10, premium_multiplier = 1,
          description = ''20% increase in claims frequency''\<rparr>),
      (''Moderate Stress'',
         \<lparr>claims_multiplier = 15 / 10, premium_multiplier = 1,
          description = ''50% increase in claims frequency''\<rparr>),
      (''Severe Stress'',
         \<lparr>claims_multiplier = 2, premium_multiplier = 1,
          description = ''100% increase in claims frequency''\<rparr>),
      (''Economic Downturn'',
         \<lparr>claims_multiplier = 18 / 10, premium_multiplier = 9 / 10,
          description = ''Economic downturn with reduced premiums''\<rparr>),
      (''Catastrophic Event'',
         \<lparr>claims_multiplier = 3, premium_multiplier = 1,
          description = ''Catastrophic event scenario''\<rparr>)]"

text \<open>One row of the table of results; its numeric columns are float64 columns.\<close>

record stress_result =
  Scenario :: string
  Description :: string
  Claims_Multiplier :: float64
  Premium_Multiplier :: float64
  Stressed_Premiums :: float64
  Stressed_Claims :: float64
  Stressed_Loss_Ratio :: float64
  Required_Reserves :: float64
  Stressed_Claims_Exposure :: float64
  Capital_Adequacy :: float64
  Capital_Ratio :: float64
  Adequacy_Status :: string

text \<open>
  The body of the loop over the scenarios. The loss ratio is divided without a guard and
  raises when both operands are Python numbers and the stressed premiums are zero; the
  capital ratio is only divided when the exposure is positive.
\<close>

definition stress_scenario ::
  "base_metrics \<Rightarrow> string \<times> scenario_params \<Rightarrow> error + stress_result" where
  "stress_scenario base item =
     (let scenario_name = fst item; params = snd item;
          stressed_claims = sc_mul (total_claims base) (PyNum (claims_multiplier params));
          stressed_premiums = sc_mul (total_premiums base) (PyNum (premium_multiplier params))
      in case sc_div (sc_mul stressed_claims (PyNum 1000)) stressed_premiums of
           Inl e \<Rightarrow> Inl e
         | Inr stressed_loss_ratio \<Rightarrow>
             (let required_reserves = sc_mul stressed_premiums (PyNum (15 / 100));
                  actual_claims_exposure = sc_mul stressed_claims (PyNum 1000);
                  capital_adequacy = sc_sub required_reserves actual_claims_exposure
              in case (if sc_gt actual_claims_exposure (PyNum 0)
                       then sc_div required_reserves actual_claims_exposure
                       else Inr (PyNum 0)) of
                   Inl e \<Rightarrow> Inl e
                 | Inr capital_ratio \<Rightarrow>
                     Inr \<lparr>Scenario = scenario_name, Description = description params,
                          Claims_Multiplier = Fin (claims_multiplier params),
                          Premium_Multiplier = Fin (premium_multiplier params),
                          Stressed_Premiums = as_float64 stressed_premiums,
                          Stressed_Claims = as_float64 stressed_claims,
                          Stressed_Loss_Ratio = as_float64 stressed_loss_ratio,
                          Required_Reserves = as_float64 required_reserves,
                          Stressed_Claims_Exposure = as_float64 actual_claims_exposure,
                          Capital_Adequacy = as_float64 capital_adequacy,
                          Capital_Ratio = as_float64 capital_ratio,
                          Adequacy_Status =
                            (if sc_ge capital_adequacy (PyNum 0)
                             then ''Adequate'' else ''Inadequate'')\<rparr>))"

definition portfolio_metrics :: "enriched list \<Rightarrow> base_metrics" where
  "portfolio_metrics df =
     \<lparr>total_premiums = column_sum (map Premium_Amount df),
      total_claims = column_sum (map Previous_Claims df),
      total_policies = length df,
      avg_loss_ratio = mean_skipna (map Loss_Ratio df)\<rparr>"

text \<open>
  The loop: each result is appended to \<open>stress_results\<close>, and an exception in the body ends
  the call.
\<close>

fun stress_loop ::
  "base_metrics \<Rightarrow> (string \<times> scenario_params) list \<Rightarrow> stress_result list
     \<Rightarrow> error + stress_result list" where
  "stress_loop base [] stress_results = Inr stress_results"
| "stress_loop base (item # items) stress_results =
     (case stress_scenario base item of
        Inl e \<Rightarrow> Inl e
      | Inr result \<Rightarrow> stress_loop base items (stress_results @ [result]))"

definition perform_stress_testing :: "enriched list \<Rightarrow> error + stress_result list" where
  "perform_stress_testing df = stress_loop (portfolio_metrics df) scenarios []"

section \<open>Loss ratio in the ETL module (data\_etl\_analysis.py, data\_preprocessing)\<close>

text \<open>
  Lines 63, 98 and 99: Previous Claims filled with 0, then the same quotient and the same
  \<open>fillna(0)\<close> as in \<open>load_and_prepare_data\<close>.
\<close>

definition estimated_loss_ratio :: "policy \<Rightarrow> float64" where
  "estimated_loss_ratio row0 =
     (let row = row0\<lparr>Previous_Claims := fillna (Fin 0) (Previous_Claims row0)\<rparr>;
          ratio = fl_div (fl_mul (Previous_Claims row) (Fin 1000)) (Premium_Amount row)
      in fillna (Fin 0) ratio)"

section \<open>Concrete tables\<close>

text \<open>A middle-aged, healthy non-smoker with good credit: every contribution is 0.\<close>

definition plain_policy :: policy where
  "plain_policy =
     \<lparr>Age = Fin 40, Previous_Claims = Fin 0, Health_Score = Fin 50, Credit_Score = Fin 700,
      Smoking_Status = Some ''No'', Exercise_Frequency = Some ''Daily'',
      Premium_Amount = Fin 1000\<rparr>"

text \<open>Every contribution at its largest.\<close>

definition worst_policy :: policy where
  "worst_policy =
     \<lparr>Age = Fin 20, Previous_Claims = Fin 3, Health_Score = Fin 10, Credit_Score = Fin 400,
      Smoking_Status = Some ''Yes'', Exercise_Frequency = Some ''Rarely'',
      Premium_Amount = Fin 1000\<rparr>"

text \<open>A policy with one previous claim and a premium of zero.\<close>

definition zero_premium_policy :: policy where
  "zero_premium_policy = plain_policy\<lparr>Previous_Claims := Fin 1, Premium_Amount := Fin 0\<rparr>"

text \<open>A policy without claims whose premium cell is empty.\<close>

definition missing_premium_policy :: policy where
  "missing_premium_policy = plain_policy\<lparr>Premium_Amount := NaN\<rparr>"

text \<open>
  The category of the specification's worked example: premiums of 100,000 and 40 claims in
  the Low band.
\<close>

definition example_aggregate :: category_aggregate where
  "example_aggregate =
     \<lparr>Category = ''Low'', Total_Premiums = Fin 100000, Avg_Premium = Fin 2500,
      Policy_Count = 40, Total_Claims = Fin 40, Avg_Loss_Ratio = Fin (4 / 10)\<rparr>"

text \<open>
  A portfolio of three policies with the totals of the specification's stress example:
  premiums of 1,000,000 and 300 claims.
\<close>

definition example_portfolio :: "policy list" where
  "example_portfolio =
     [plain_policy\<lparr>Previous_Claims := Fin 100, Premium_Amount := Fin 500000\<rparr>,
      plain_policy\<lparr>Previous_Claims := Fin 150, Premium_Amount := Fin 300000\<rparr>,
      worst_policy\<lparr>Previous_Claims := Fin 50, Premium_Amount := Fin 200000\<rparr>]"

text \<open>A portfolio without any claim.\<close>

definition claim_free_portfolio :: "policy list" where
  "claim_free_portfolio = [plain_policy, plain_policy\<lparr>Smoking_Status := Some ''Yes''\<rparr>]"

text \<open>
  Two policies in different bands (the second is a smoker with one claim, score 3) whose
  premiums carry a third decimal.
\<close>

definition third_decimal_table :: "policy list" where
  "third_decimal_table =
     [plain_policy\<lparr>Premium_Amount := Fin (100004 / 1000)\<rparr>,
      plain_policy\<lparr>Previous_Claims := Fin 1, Smoking_Status := Some ''Yes'',
        Premium_Amount := Fin (200004 / 1000)\<rparr>]"

text \<open>Three policies in two bands, one of them with an empty premium cell.\<close>

definition mixed_table :: "policy list" where
  "mixed_table =
     [plain_policy, missing_premium_policy,
      plain_policy\<lparr>Previous_Claims := Fin 1, Smoking_Status := Some ''Yes'',
        Premium_Amount := Fin (25050 / 100)\<rparr>]"

text \<open>Four policies in three bands with whole-number premiums, none of them missing.\<close>

definition whole_number_table :: "policy list" where
  "whole_number_table =
     [plain_policy, plain_policy\<lparr>Premium_Amount := Fin 2500\<rparr>,
      plain_policy\<lparr>Previous_Claims := Fin 1, Smoking_Status := Some ''Yes'',
        Premium_Amount := Fin 1800\<rparr>,
      worst_policy]"

section \<open>Facts about the number model\<close>

lemma fl_lt_Fin_iff: "fl_lt x (Fin b) \<longleftrightarrow> (x = NegInf \<or> (\<exists>a. x = Fin a \<and> a < b))"
  by (cases x) simp_all

lemma fl_lt_Fin_left_iff: "fl_lt (Fin a) x \<longleftrightarrow> (x = PosInf \<or> (\<exists>b. x = Fin b \<and> a < b))"
  by (cases x) simp_all

lemma fl_le_Fin_iff: "fl_le x (Fin b) \<longleftrightarrow> (x = NegInf \<or> (\<exists>a. x = Fin a \<and> a \<le> b))"
  by (cases x) (auto simp: fl_le_def)

lemma fl_le_Fin_left_iff: "fl_le (Fin a) x \<longleftrightarrow> (x = PosInf \<or> (\<exists>b. x = Fin b \<and> a \<le> b))"
  by (cases x) (auto simp: fl_le_def)

lemma fl_div_NaN_right: "fl_div x NaN = NaN"
  by (cases x) simp_all

lemma fl_mul_one: "fl_mul x (Fin 1) = x"
  by (cases x) (simp_all add: signed_inf_def)

lemma fl_mul_pos_notnan: "0 < c \<Longrightarrow> fl_mul x (Fin c) = NaN \<longleftrightarrow> x = NaN"
  by (cases x) (simp_all add: signed_inf_def)

lemma fl_mul_Fin_eq_zero: "c \<noteq> 0 \<Longrightarrow> fl_mul x (Fin c) = Fin 0 \<longleftrightarrow> x = Fin 0"
  by (cases x) (simp_all add: signed_inf_def)

lemma fl_le_refl: "x \<noteq> NaN \<Longrightarrow> fl_le x x"
  by (cases x) (simp_all add: fl_le_def)

lemma fl_le_trans: "fl_le x y \<Longrightarrow> fl_le y z \<Longrightarrow> fl_le x z"
  by (cases x; cases y; cases z) (simp_all add: fl_le_def)

lemma fl_le_max1: "a \<noteq> NaN \<Longrightarrow> b \<noteq> NaN \<Longrightarrow> fl_le a (fl_max a b)"
  by (cases a; cases b) (simp_all add: fl_le_def fl_max_def)

lemma fl_le_max2: "a \<noteq> NaN \<Longrightarrow> b \<noteq> NaN \<Longrightarrow> fl_le b (fl_max a b)"
  by (cases a; cases b) (simp_all add: fl_le_def fl_max_def)

lemma fl_max_cases: "fl_max a b = a \<or> fl_max a b = b"
  by (simp add: fl_max_def)

lemma foldl_fl_max:
  "y \<noteq> NaN \<Longrightarrow> NaN \<notin> set ys \<Longrightarrow>
     foldl fl_max y ys \<noteq> NaN \<and> foldl fl_max y ys \<in> set (y # ys)
     \<and> (\<forall>c\<in>set (y # ys). fl_le c (foldl fl_max y ys))"
proof (induction ys arbitrary: y)
  case Nil
  then show ?case by (simp add: fl_le_refl)
next
  case (Cons z zs)
  let ?m = "fl_max y z"
  from Cons.prems have z: "z \<noteq> NaN" and zs: "NaN \<notin> set zs" by auto
  have m: "?m \<noteq> NaN" using fl_max_cases [of y z] Cons.prems(1) z by auto
  from Cons.IH [OF m zs] have
    ih1: "foldl fl_max ?m zs \<noteq> NaN" and ih2: "foldl fl_max ?m zs \<in> set (?m # zs)"
    and ih3: "\<forall>c\<in>set (?m # zs). fl_le c (foldl fl_max ?m zs)" by auto
  have "fl_le y (foldl fl_max ?m zs)"
    using fl_le_trans [OF fl_le_max1 [OF Cons.prems(1) z]] ih3 by simp
  moreover have "fl_le z (foldl fl_max ?m zs)"
    using fl_le_trans [OF fl_le_max2 [OF Cons.prems(1) z]] ih3 by simp
  moreover have "foldl fl_max ?m zs \<in> set (y # z # zs)"
    using ih2 fl_max_cases [of y z] by auto
  ultimately show ?case using ih1 ih3 by simp
qed

lemma max_skipna_is_max:
  "NaN \<notin> set xs \<Longrightarrow> xs \<noteq> [] \<Longrightarrow>
     max_skipna xs \<in> set xs \<and> (\<forall>c\<in>set xs. fl_le c (max_skipna xs))"
proof -
  assume nn: "NaN \<notin> set xs" and ne: "xs \<noteq> []"
  then obtain y ys where xs: "xs = y # ys" by (cases xs) auto
  have "notna xs = xs" using nn by (auto simp: notna_def filter_id_conv)
  then have "max_skipna xs = foldl fl_max y ys" by (simp add: max_skipna_def xs)
  then show ?thesis using foldl_fl_max [of y ys] nn xs by auto
qed

section \<open>Risk scoring: the code against the rule\<close>

lemma spec_age_points_range: "spec_age_points a \<in> {0, 1, 2}"
  by (simp add: spec_age_points_def)

lemma spec_claims_points_range: "spec_claims_points c \<in> {0, 1, 3}"
  by (simp add: spec_claims_points_def)

lemma spec_health_points_range: "spec_health_points h \<in> {0, 1, 2}"
  by (simp add: spec_health_points_def)

lemma spec_credit_points_range: "spec_credit_points c \<in> {0, 1, 2}"
  by (simp add: spec_credit_points_def)

lemma risk_score_row_age:
  "(if fl_lt a (Fin 25) \<or> fl_gt a (Fin 65) then s + 2
    else if fl_le (Fin 25) a \<and> fl_le a (Fin 35) then s + 1 else s) = s + spec_age_points a"
  by (simp add: spec_age_points_def)

lemma risk_score_row_claims:
  "(if fl_gt c (Fin 2) then s + 3 else if fl_gt c (Fin 0) then s + 1 else s)
     = s + spec_claims_points c"
  by (cases c) (auto simp: spec_claims_points_def fl_gt_def fl_le_def)

lemma risk_score_row_health:
  "(if fl_lt h (Fin 20) then s + 2 else if fl_lt h (Fin 40) then s + 1 else s)
     = s + spec_health_points h"
  by (cases h) (auto simp: spec_health_points_def fl_le_def)

lemma risk_score_row_credit:
  "(if fl_lt c (Fin 500) then s + 2 else if fl_lt c (Fin 650) then s + 1 else s)
     = s + spec_credit_points c"
  by (cases c) (auto simp: spec_credit_points_def fl_le_def)

lemma risk_score_row_components: "risk_score_row row = spec_risk_score row"
  unfolding risk_score_row_def Let_def spec_risk_score_def
    risk_score_row_age risk_score_row_claims risk_score_row_health risk_score_row_credit
  by (simp add: spec_smoking_points_def spec_exercise_points_def)

lemma categorize_risk_spec: "categorize_risk s = spec_risk_category s"
  by (simp add: categorize_risk_def spec_risk_category_def)

lemma risk_category_row_eq: "risk_category_row row = categorize_risk (risk_score_row row)"
  by (simp add: risk_category_row_def risk_score_row_def categorize_risk_def Let_def)

text \<open>
  C2. For every policy record the risk score computed by \<open>_calculate_risk_score\<close> is the sum
  of the six contributions of the scoring rule (age, previous claims, health score, credit
  score, smoking status, exercise frequency, each worded as in the specification), the
  category \<open>_categorize_risk\<close> derives from it follows the breakpoints 2, 4 and 6, and the
  copy of the rule in \<open>_calculate_risk_category\<close> of the ETL module gives the same category.
\<close>

theorem risk_score_additive_rule:
  "calculate_risk_score df = map spec_risk_score df
   \<and> map categorize_risk (calculate_risk_score df)
       = map (\<lambda>row. spec_risk_category (spec_risk_score row)) df
   \<and> calculate_risk_category df = map (\<lambda>row. spec_risk_category (spec_risk_score row)) df"
  by (simp add: calculate_risk_score_def calculate_risk_category_def risk_score_row_components
      categorize_risk_spec risk_category_row_eq)

section \<open>Range of the score and steps of the category\<close>

lemma risk_score_row_bounds: "0 \<le> risk_score_row row \<and> risk_score_row row \<le> 12"
  using spec_age_points_range [of "Age row"] spec_claims_points_range [of "Previous_Claims row"]
    spec_health_points_range [of "Health_Score row"] spec_credit_points_range [of "Credit_Score row"]
  by (auto simp: risk_score_row_components spec_risk_score_def spec_smoking_points_def
      spec_exercise_points_def)

lemma risk_score_row_worst: "risk_score_row worst_policy = 12"
  by (simp add: risk_score_row_def worst_policy_def Let_def fl_gt_def fl_le_def)

lemma categorize_risk_mono:
  "s1 \<le> s2 \<Longrightarrow> category_rank (categorize_risk s1) \<le> category_rank (categorize_risk s2)"
  by (simp add: categorize_risk_def category_rank_def)

lemma categorize_risk_steps: "categorize_risk (s + 1) \<noteq> categorize_risk s \<longleftrightarrow> s \<in> {2, 4, 6}"
  by (auto simp: categorize_risk_def)

text \<open>
  C6, as amended. For every policy record the risk score is an integer between 0 and 12;
  12 is the sum of the largest contributions (2 + 3 + 2 + 2 + 2 + 1) and is reached when
  every contribution is at its largest. The category never decreases when the score
  increases, and it changes between a score and the next exactly at the scores 2, 4 and 6.
\<close>

theorem risk_score_range_and_steps:
  "0 \<le> risk_score_row row \<and> risk_score_row row \<le> 12
   \<and> risk_score_row worst_policy = 12
   \<and> (s1 \<le> s2 \<longrightarrow> category_rank (categorize_risk s1) \<le> category_rank (categorize_risk s2))
   \<and> (categorize_risk (s + 1) \<noteq> categorize_risk s \<longleftrightarrow> s \<in> {2, 4, 6})"
  using risk_score_row_bounds [of row] categorize_risk_mono [of s1 s2] categorize_risk_steps [of s]
    risk_score_row_worst by blast

theorem risk_score_range_and_steps_witness:
  "(2::int) \<le> 3 \<and> category_rank (categorize_risk 2) \<le> category_rank (categorize_risk 3)
   \<and> category_rank (categorize_risk 2) = 0 \<and> category_rank (categorize_risk 3) = 1
   \<and> risk_score_row worst_policy \<le> 12 \<and> categorize_risk (2 + 1) \<noteq> categorize_risk 2"
  using risk_score_range_and_steps [where row = worst_policy and ?s1.0 = 2 and ?s2.0 = 3 and s = 2]
  by (simp add: categorize_risk_def category_rank_def)

lemma Max_range_eqI:
  fixes f :: "'a \<Rightarrow> int"
  assumes le: "\<And>x. f x \<le> m" and ge: "\<And>x. 0 \<le> f x" and at: "f a = m"
  shows "Max (range f) = m"
proof -
  have "range f \<subseteq> {0..m}" using le ge by auto
  then have fin: "finite (range f)" by (rule finite_subset) simp
  show ?thesis
  proof (rule Max_eqI [OF fin])
    show "\<And>y. y \<in> range f \<Longrightarrow> y \<le> m" using le by auto
    show "m \<in> range f" using at by auto
  qed
qed

lemma Max_spec_age_points: "Max (range spec_age_points) = 2"
  by (rule Max_range_eqI [where a = "Fin 20"]) (simp_all add: spec_age_points_def)

lemma Max_spec_claims_points: "Max (range spec_claims_points) = 3"
  by (rule Max_range_eqI [where a = "Fin 3"]) (simp_all add: spec_claims_points_def fl_gt_def)

lemma Max_spec_health_points: "Max (range spec_health_points) = 2"
  by (rule Max_range_eqI [where a = "Fin 10"]) (simp_all add: spec_health_points_def)

lemma Max_spec_credit_points: "Max (range spec_credit_points) = 2"
  by (rule Max_range_eqI [where a = "Fin 400"]) (simp_all add: spec_credit_points_def)

lemma Max_spec_smoking_points: "Max (range spec_smoking_points) = 2"
  by (rule Max_range_eqI [where a = "Some ''Yes''"]) (simp_all add: spec_smoking_points_def)

lemma Max_spec_exercise_points: "Max (range spec_exercise_points) = 1"
  by (rule Max_range_eqI [where a = "Some ''Rarely''"]) (simp_all add: spec_exercise_points_def)

text \<open>
  C6 as the specification states it gives 13 as the sum of the largest contributions.
  The six largest contributions do not add up to 13, and no record scores 13.
\<close>

theorem risk_score_maxima_counterexample:
  "Max (range spec_age_points) + Max (range spec_claims_points) + Max (range spec_health_points)
     + Max (range spec_credit_points) + Max (range spec_smoking_points)
     + Max (range spec_exercise_points) \<noteq> 13
   \<and> \<not> (\<exists>row. risk_score_row row = 13)"
proof -
  have "risk_score_row row \<noteq> 13" for row
    using risk_score_row_bounds [of row] by simp
  then show ?thesis
    by (simp add: Max_spec_age_points Max_spec_claims_points Max_spec_health_points
        Max_spec_credit_points Max_spec_smoking_points Max_spec_exercise_points)
qed

section \<open>Monotonicity in the number of previous claims\<close>

lemma spec_claims_points_mono: "fl_le c1 c2 \<Longrightarrow> spec_claims_points c1 \<le> spec_claims_points c2"
  by (cases c1; cases c2) (auto simp: spec_claims_points_def fl_gt_def fl_le_def)

lemma spec_claims_points_Fin:
  "spec_claims_points (Fin c) = (if 2 < c then 3 else if 0 < c then 1 else 0)"
  by (auto simp: spec_claims_points_def fl_gt_def fl_le_def)

lemma risk_score_row_claims_mono:
  "fl_le c1 c2 \<Longrightarrow>
     risk_score_row (row\<lparr>Previous_Claims := c1\<rparr>) \<le> risk_score_row (row\<lparr>Previous_Claims := c2\<rparr>)"
  by (simp add: risk_score_row_components spec_risk_score_def spec_claims_points_mono)

lemma risk_score_row_claims_step:
  "risk_score_row (row\<lparr>Previous_Claims := Fin c\<rparr>)
     = risk_score_row (row\<lparr>Previous_Claims := Fin 0\<rparr>)
       + (if 2 < c then 3 else if 0 < c then 1 else 0)"
  by (simp add: risk_score_row_components spec_risk_score_def spec_claims_points_Fin)

text \<open>
  C10. With every other field of the record held fixed, a larger number of previous claims
  never gives a smaller risk score; for a finite number \<open>c\<close> of claims the score exceeds the
  score of the claim-free record by 0 when \<open>c \<le> 0\<close>, by 1 when \<open>0 < c \<le> 2\<close> and by 3 when
  \<open>2 < c\<close>.
\<close>

theorem risk_score_monotone_in_claims:
  "(fl_le c1 c2 \<longrightarrow>
      risk_score_row (row\<lparr>Previous_Claims := c1\<rparr>) \<le> risk_score_row (row\<lparr>Previous_Claims := c2\<rparr>))
   \<and> risk_score_row (row\<lparr>Previous_Claims := Fin c\<rparr>)
       = risk_score_row (row\<lparr>Previous_Claims := Fin 0\<rparr>)
         + (if 2 < c then 3 else if 0 < c then 1 else 0)"
  using risk_score_row_claims_mono risk_score_row_claims_step by blast

theorem risk_score_monotone_in_claims_witness:
  "fl_le (Fin 1) (Fin 3)
   \<and> risk_score_row (plain_policy\<lparr>Previous_Claims := Fin 1\<rparr>)
       \<le> risk_score_row (plain_policy\<lparr>Previous_Claims := Fin 3\<rparr>)
   \<and> risk_score_row (plain_policy\<lparr>Previous_Claims := Fin 3\<rparr>)
       = risk_score_row (plain_policy\<lparr>Previous_Claims := Fin 0\<rparr>) + 3"
  using risk_score_monotone_in_claims [where ?c1.0 = "Fin 1" and ?c2.0 = "Fin 3" and row = plain_policy and c = 3]
  by (simp add: fl_le_def)

section \<open>Reserve requirements: the binding amount\<close>

lemma risk_multiplier_table:
  "map risk_multiplier [''Low'', ''Medium'', ''High'', ''Very High'']
     = [10 / 100, 15 / 100, 25 / 100, 35 / 100]"
  by (simp add: risk_multiplier_def risk_multipliers_def)

lemma risk_multiplier_pos: "0 < risk_multiplier c"
  by (simp add: risk_multiplier_def risk_multipliers_def)

lemma risk_multiplier_ge: "1 / 10 \<le> risk_multiplier c"
  by (simp add: risk_multiplier_def risk_multipliers_def)

lemma reserve_row_fields:
  "Premium_Based_Reserves (reserve_row a) = fl_mul (Total_Premiums a) (Fin (15 / 100))"
  "Claims_Based_Reserves (reserve_row a) = fl_mul (fl_mul (Total_Claims a) (Fin 1000)) (Fin 3)"
  "Risk_Adjusted_Reserves (reserve_row a)
     = fl_mul (Total_Premiums a) (Fin (risk_multiplier (Category a)))"
  "IBNR_Reserves (reserve_row a) = fl_mul (Total_Premiums a) (Fin (5 / 100))"
  "Total_Required_Reserves (reserve_row a)
     = max_skipna [Premium_Based_Reserves (reserve_row a), Claims_Based_Reserves (reserve_row a),
         Risk_Adjusted_Reserves (reserve_row a), IBNR_Reserves (reserve_row a)]"
  "Actual_Claims_Exposure (reserve_row a) = fl_mul (Total_Claims a) (Fin 1000)"
  "Reserve_Adequacy (reserve_row a)
     = fl_sub (Total_Required_Reserves (reserve_row a)) (Actual_Claims_Exposure (reserve_row a))"
  "Reserve_Ratio (reserve_row a)
     = fl_div (Total_Required_Reserves (reserve_row a)) (Actual_Claims_Exposure (reserve_row a))"
  by (simp_all add: reserve_row_def Let_def)

lemma reserve_candidates_notnan:
  assumes "Total_Premiums a \<noteq> NaN" "Total_Claims a \<noteq> NaN"
  shows "NaN \<notin> set (reserve_candidates (reserve_row a))"
  using assms
  by (simp add: reserve_candidates_def reserve_row_fields fl_mul_pos_notnan risk_multiplier_pos eq_commute [of NaN])

lemma max_skipna_Fin4:
  "max_skipna [Fin a, Fin b, Fin c, Fin d] = Fin (max (max (max a b) c) d)"
  by (simp add: max_skipna_def notna_def fl_max_def max_def)

lemma reserve_row_finite:
  assumes "Total_Premiums a = Fin p" "Total_Claims a = Fin c"
  shows "Total_Required_Reserves (reserve_row a)
     = Fin (max (max (max (p * (15 / 100)) (c * 1000 * 3)) (p * risk_multiplier (Category a))) (p * (5 / 100)))"
  using assms by (simp add: reserve_row_fields max_skipna_Fin4)

lemma max4_lt_sum:
  fixes p c q :: rat
  assumes "0 < p" "0 \<le> c" "p / 10 \<le> q"
  shows "max (max (max (p * (15 / 100)) (c * 1000 * 3)) q) (p * (5 / 100))
           < p * (15 / 100) + c * 1000 * 3 + q + p * (5 / 100)"
  using assms by (simp add: max_def)

lemma mean4_lt_max:
  fixes p c q :: rat
  assumes "0 < p" "0 \<le> c" "p / 10 \<le> q"
  shows "(p * (15 / 100) + c * 1000 * 3 + q + p * (5 / 100)) / 4
           < max (max (max (p * (15 / 100)) (c * 1000 * 3)) q) (p * (5 / 100))"
  using assms by (simp add: max_def)

lemma required_not_sum_nor_mean:
  assumes tp: "Total_Premiums a = Fin p" and tc: "Total_Claims a = Fin c" and p: "0 < p" and c: "0 \<le> c"
  shows "fl_lt (Total_Required_Reserves (reserve_row a)) (sum_skipna (reserve_candidates (reserve_row a)))
    \<and> fl_lt (mean_skipna (reserve_candidates (reserve_row a))) (Total_Required_Reserves (reserve_row a))"
proof -
  let ?q = "p * risk_multiplier (Category a)"
  have "p * (1 / 10) \<le> ?q" using risk_multiplier_ge [of "Category a"] p
    by (intro mult_left_mono) simp_all
  then have q: "p / 10 \<le> ?q" by simp
  have cs: "reserve_candidates (reserve_row a) = [Fin (p * (15 / 100)), Fin (c * 1000 * 3), Fin ?q, Fin (p * (5 / 100))]"
    by (simp add: reserve_candidates_def reserve_row_fields tp tc)
  have s: "sum_skipna (reserve_candidates (reserve_row a)) = Fin (p * (15 / 100) + c * 1000 * 3 + ?q + p * (5 / 100))"
    unfolding cs by (simp add: sum_skipna_def notna_def)
  have m: "mean_skipna (reserve_candidates (reserve_row a)) = Fin ((p * (15 / 100) + c * 1000 * 3 + ?q + p * (5 / 100)) / 4)"
    unfolding mean_skipna_def s unfolding cs by (simp add: count_notna_def notna_def)
  have r: "Total_Required_Reserves (reserve_row a) = Fin (max (max (max (p * (15 / 100)) (c * 1000 * 3)) ?q) (p * (5 / 100)))"
    using reserve_row_finite [OF tp tc] by simp
  show ?thesis unfolding s m r using max4_lt_sum [OF p c q] mean4_lt_max [OF p c q] by simp
qed

section \<open>Loss ratio\<close>

lemma loss_ratio_prepare_row: "Loss_Ratio (prepare_row row) = estimated_loss_ratio row"
  by (simp add: prepare_row_def estimated_loss_ratio_def Let_def)

lemma estimated_loss_ratio_missing_premium:
  "Premium_Amount row = NaN \<Longrightarrow> estimated_loss_ratio row = Fin 0"
  by (simp add: estimated_loss_ratio_def Let_def fl_div_NaN_right fillna_def [of _ NaN])

lemma estimated_loss_ratio_positive_premium:
  "Premium_Amount row = Fin p \<Longrightarrow> 0 < p \<Longrightarrow> Previous_Claims row = Fin c \<Longrightarrow>
     estimated_loss_ratio row = Fin (c * 1000 / p)"
  by (simp add: estimated_loss_ratio_def Let_def fillna_def)

lemma estimated_loss_ratio_zero_premium:
  "Premium_Amount row = Fin 0 \<Longrightarrow> Previous_Claims row = Fin c \<Longrightarrow>
     estimated_loss_ratio row = (if 0 < c then PosInf else if c < 0 then NegInf else Fin 0)"
  by (simp add: estimated_loss_ratio_def Let_def fillna_def signed_inf_def)

text \<open>
  C4, evaluated where the code departs from it. A policy with one previous claim and a premium
  of zero gets a loss ratio of plus infinity in both modules: the quotient 1000 / 0 is an
  infinity, and \<open>fillna(0)\<close> replaces NaN only. (A missing premium, and a zero premium without
  claims, do give 0; a positive premium gives the quotient: the three lemmas above.)
\<close>

theorem loss_ratio_zero_premium_infinite:
  "Loss_Ratio (prepare_row zero_premium_policy) = PosInf
   \<and> estimated_loss_ratio zero_premium_policy = PosInf"
  by (simp add: loss_ratio_prepare_row estimated_loss_ratio_def zero_premium_policy_def
      plain_policy_def Let_def fillna_def signed_inf_def)

section \<open>Reserve ratio of a category\<close>

lemma reserve_ratio_positive_exposure:
  "Total_Premiums a = Fin p \<Longrightarrow> Total_Claims a = Fin c \<Longrightarrow> 0 < c \<Longrightarrow>
     Reserve_Ratio (reserve_row a)
       = Fin (the_fin (Total_Required_Reserves (reserve_row a))
              / the_fin (Actual_Claims_Exposure (reserve_row a)))"
  by (simp add: reserve_row_fields max_skipna_Fin4)

lemma reserve_ratio_no_exposure:
  "Total_Premiums a = Fin p \<Longrightarrow> Total_Claims a = Fin 0 \<Longrightarrow>
     Reserve_Ratio (reserve_row a) = (if 0 < p then PosInf else NaN)"
proof -
  assume tp: "Total_Premiums a = Fin p" and tc: "Total_Claims a = Fin 0"
  let ?q = "p * risk_multiplier (Category a)"
  let ?r = "max (max (max (p * (15 / 100)) 0) ?q) (p * (5 / 100))"
  have ratio: "Reserve_Ratio (reserve_row a) = signed_inf (fl_sign (Fin ?r))"
    by (simp add: reserve_row_fields max_skipna_Fin4 tp tc)
  show ?thesis
  proof (cases "0 < p")
    case True
    then have "0 < ?r" by (simp add: max_def)
    then show ?thesis using True by (simp add: ratio signed_inf_def)
  next
    case False
    then have "?q \<le> 0" using risk_multiplier_pos [of "Category a"]
      by (simp add: mult_le_0_iff)
    then have "?r = 0" using False by (simp add: max_def)
    then show ?thesis using False by (simp add: ratio signed_inf_def)
  qed
qed

text \<open>
  C5, evaluated where the code departs from it. A table with a single policy that has no
  claims and an empty premium cell gives one category with total premiums 0 and total claims
  0; its four candidate reserves and its exposure are 0, and the reserve ratio 0 / 0 is NaN.
  The division is not guarded. (With positive exposure the ratio is the quotient, and with no
  exposure but positive premiums it is plus infinity: the two lemmas above.)
\<close>

theorem reserve_ratio_no_exposure_nan:
  "map (\<lambda>r. (Category r, Total_Premiums r, Total_Claims r, Total_Required_Reserves r,
              Actual_Claims_Exposure r, Reserve_Ratio r))
     (calculate_reserve_requirements (load_and_prepare_data [missing_premium_policy]))
   = [(''Low'', Fin 0, Fin 0, Fin 0, Fin 0, NaN)]"
  by code_simp

section \<open>Stress testing\<close>

lemma scenarios_catalog:
  "map (\<lambda>item. (fst item, claims_multiplier (snd item), premium_multiplier (snd item))) scenarios
     = [(''Base Case'', 1, 1), (''Mild Stress'', 12 / 10, 1), (''Moderate Stress'', 15 / 10, 1),
        (''Severe Stress'', 2, 1), (''Economic Downturn'', 18 / 10, 9 / 10),
        (''Catastrophic Event'', 3, 1)]"
  by (simp add: scenarios_def)

lemma length_scenarios: "length scenarios = 6"
  by (simp add: scenarios_def)

text \<open>With numpy totals the body of the loop returns its row.\<close>

lemma stress_scenario_numpy:
  assumes "total_premiums base = NpFloat tp" and "total_claims base = NpFloat tc"
  shows "stress_scenario base item =
     Inr \<lparr>Scenario = fst item, Description = description (snd item),
          Claims_Multiplier = Fin (claims_multiplier (snd item)),
          Premium_Multiplier = Fin (premium_multiplier (snd item)),
          Stressed_Premiums = fl_mul tp (Fin (premium_multiplier (snd item))),
          Stressed_Claims = fl_mul tc (Fin (claims_multiplier (snd item))),
          Stressed_Loss_Ratio =
            fl_div (fl_mul (fl_mul tc (Fin (claims_multiplier (snd item)))) (Fin 1000))
              (fl_mul tp (Fin (premium_multiplier (snd item)))),
          Required_Reserves =
            fl_mul (fl_mul tp (Fin (premium_multiplier (snd item)))) (Fin (15 / 100)),
          Stressed_Claims_Exposure =
            fl_mul (fl_mul tc (Fin (claims_multiplier (snd item)))) (Fin 1000),
          Capital_Adequacy =
            fl_sub (fl_mul (fl_mul tp (Fin (premium_multiplier (snd item)))) (Fin (15 / 100)))
              (fl_mul (fl_mul tc (Fin (claims_multiplier (snd item)))) (Fin 1000)),
          Capital_Ratio =
            (if fl_gt (fl_mul (fl_mul tc (Fin (claims_multiplier (snd item)))) (Fin 1000)) (Fin 0)
             then fl_div
                    (fl_mul (fl_mul tp (Fin (premium_multiplier (snd item)))) (Fin (15 / 100)))
                    (fl_mul (fl_mul tc (Fin (claims_multiplier (snd item)))) (Fin 1000))
             else Fin 0),
          Adequacy_Status =
            (if fl_ge
                  (fl_sub
                     (fl_mul (fl_mul tp (Fin (premium_multiplier (snd item)))) (Fin (15 / 100)))
                     (fl_mul (fl_mul tc (Fin (claims_multiplier (snd item)))) (Fin 1000)))
                  (Fin 0)
             then ''Adequate'' else ''Inadequate'')\<rparr>"
  by (simp add: stress_scenario_def Let_def assms sc_gt_def sc_ge_def)

lemma stress_loop_returns:
  "(\<And>item. stress_scenario base item = Inr (f item)) \<Longrightarrow>
     stress_loop base items acc = Inr (acc @ map f items)"
  by (induction items arbitrary: acc) simp_all

lemma portfolio_metrics_nonempty:
  "df \<noteq> [] \<Longrightarrow>
     total_premiums (portfolio_metrics df) = NpFloat (sum_skipna (map Premium_Amount df))
     \<and> total_claims (portfolio_metrics df) = NpFloat (sum_skipna (map Previous_Claims df))"
  by (simp add: portfolio_metrics_def column_sum_def)

text \<open>The row of one scenario for a table with rows, from the sums of its two columns.\<close>

lemma perform_stress_testing_nonempty:
  assumes "df \<noteq> []"
  shows "\<exists>rs. perform_stress_testing df = Inr rs \<and> length rs = 6
    \<and> (\<forall>i<6.
          stress_scenario (portfolio_metrics df) (scenarios ! i) = Inr (rs ! i))"
proof -
  let ?base = "portfolio_metrics df"
  let ?f = "\<lambda>item. projr (stress_scenario ?base item)"
  from portfolio_metrics_nonempty [OF assms] have
    tp: "total_premiums ?base = NpFloat (sum_skipna (map Premium_Amount df))" and
    tc: "total_claims ?base = NpFloat (sum_skipna (map Previous_Claims df))" by simp_all
  have ok: "stress_scenario ?base item = Inr (?f item)" for item
    by (simp add: stress_scenario_numpy [OF tp tc])
  have "perform_stress_testing df = Inr (map ?f scenarios)"
    using stress_loop_returns [of ?base ?f scenarios "[]", OF ok]
    by (simp add: perform_stress_testing_def)
  moreover have "\<forall>i<6. stress_scenario ?base (scenarios ! i) = Inr (map ?f scenarios ! i)"
    using ok by (simp add: length_scenarios)
  ultimately show ?thesis by (simp add: length_scenarios)
qed

text \<open>
  A table without rows: the totals are the Python integer 0, and the loss ratio of the first
  scenario divides 0.0 by 0.0.
\<close>

lemma perform_stress_testing_empty: "perform_stress_testing [] = Inl ZeroDivisionError"
  by (simp add: perform_stress_testing_def portfolio_metrics_def column_sum_def scenarios_def
      stress_scenario_def Let_def)

text \<open>
  C3. The catalog holds the six scenarios Base Case (1.0, 1.0), Mild Stress (1.2, 1.0),
  Moderate Stress (1.5, 1.0), Severe Stress (2.0, 1.0), Economic Downturn (1.8, 0.9) and
  Catastrophic Event (3.0, 1.0), claims multiplier first. For a table with at least one row
  the stress tester returns one result for each scenario, in that order. In each result the
  stressed premiums are the sum of the premium column times the premium multiplier, the
  required reserves are the stressed premiums times 0.15 and nothing else, the exposure is
  the sum of the claims column times the claims multiplier, times 1000, the adequacy is
  required reserves minus exposure, and the status is Adequate exactly when the adequacy is
  at least 0 and Inadequate otherwise.
\<close>

theorem stress_premium_based_only:
  "df \<noteq> [] \<Longrightarrow>
     map (\<lambda>item. (fst item, claims_multiplier (snd item), premium_multiplier (snd item)))
         scenarios
       = [(''Base Case'', 1, 1), (''Mild Stress'', 12 / 10, 1), (''Moderate Stress'', 15 / 10, 1),
          (''Severe Stress'', 2, 1), (''Economic Downturn'', 18 / 10, 9 / 10),
          (''Catastrophic Event'', 3, 1)]
     \<and> (\<exists>rs. perform_stress_testing df = Inr rs \<and> length rs = 6
          \<and> (\<forall>i<6.
                (let r = rs ! i;
                     name = fst (scenarios ! i);
                     params = snd (scenarios ! i);
                     stressed_premiums =
                       fl_mul (sum_skipna (map Premium_Amount df))
                         (Fin (premium_multiplier params));
                     exposure =
                       fl_mul
                         (fl_mul (sum_skipna (map Previous_Claims df))
                            (Fin (claims_multiplier params)))
                         (Fin 1000)
                 in Scenario r = name
                    \<and> Stressed_Premiums r = stressed_premiums
                    \<and> Required_Reserves r = fl_mul stressed_premiums (Fin (15 / 100))
                    \<and> Stressed_Claims_Exposure r = exposure
                    \<and> Capital_Adequacy r = fl_sub (Required_Reserves r) exposure
                    \<and> (Adequacy_Status r = ''Adequate''
                          \<longleftrightarrow> fl_ge (Capital_Adequacy r) (Fin 0))
                    \<and> (Adequacy_Status r = ''Inadequate''
                          \<longleftrightarrow> \<not> fl_ge (Capital_Adequacy r) (Fin 0)))))"
proof -
  assume ne: "df \<noteq> []"
  from perform_stress_testing_nonempty [OF ne] obtain rs where
    rs: "perform_stress_testing df = Inr rs" and len: "length rs = 6" and
    row: "\<forall>i<6. stress_scenario (portfolio_metrics df) (scenarios ! i) = Inr (rs ! i)"
    by blast
  from portfolio_metrics_nonempty [OF ne] have
    tp: "total_premiums (portfolio_metrics df) = NpFloat (sum_skipna (map Premium_Amount df))" and
    tc: "total_claims (portfolio_metrics df) = NpFloat (sum_skipna (map Previous_Claims df))"
    by simp_all
  have "\<forall>i<6.
      (let r = rs ! i; name = fst (scenarios ! i); params = snd (scenarios ! i);
           stressed_premiums =
             fl_mul (sum_skipna (map Premium_Amount df)) (Fin (premium_multiplier params));
           exposure =
             fl_mul (fl_mul (sum_skipna (map Previous_Claims df)) (Fin (claims_multiplier params)))
               (Fin 1000)
       in Scenario r = name
          \<and> Stressed_Premiums r = stressed_premiums
          \<and> Required_Reserves r = fl_mul stressed_premiums (Fin (15 / 100))
          \<and> Stressed_Claims_Exposure r = exposure
          \<and> Capital_Adequacy r = fl_sub (Required_Reserves r) exposure
          \<and> (Adequacy_Status r = ''Adequate'' \<longleftrightarrow> fl_ge (Capital_Adequacy r) (Fin 0))
          \<and> (Adequacy_Status r = ''Inadequate'' \<longleftrightarrow> \<not> fl_ge (Capital_Adequacy r) (Fin 0)))"
  proof (intro allI impI)
    fix i :: nat
    assume "i < 6"
    with row have "stress_scenario (portfolio_metrics df) (scenarios ! i) = Inr (rs ! i)"
      by blast
    then have "rs ! i = projr (stress_scenario (portfolio_metrics df) (scenarios ! i))"
      by simp
    then show "let r = rs ! i; name = fst (scenarios ! i); params = snd (scenarios ! i);
           stressed_premiums =
             fl_mul (sum_skipna (map Premium_Amount df)) (Fin (premium_multiplier params));
           exposure =
             fl_mul (fl_mul (sum_skipna (map Previous_Claims df)) (Fin (claims_multiplier params)))
               (Fin 1000)
       in Scenario r = name
          \<and> Stressed_Premiums r = stressed_premiums
          \<and> Required_Reserves r = fl_mul stressed_premiums (Fin (15 / 100))
          \<and> Stressed_Claims_Exposure r = exposure
          \<and> Capital_Adequacy r = fl_sub (Required_Reserves r) exposure
          \<and> (Adequacy_Status r = ''Adequate'' \<longleftrightarrow> fl_ge (Capital_Adequacy r) (Fin 0))
          \<and> (Adequacy_Status r = ''Inadequate'' \<longleftrightarrow> \<not> fl_ge (Capital_Adequacy r) (Fin 0))"
      by (simp add: stress_scenario_numpy [OF tp tc] Let_def)
  qed
  with rs len scenarios_catalog show ?thesis by blast
qed

theorem stress_premium_based_only_witness:
  "load_and_prepare_data example_portfolio \<noteq> []
   \<and> sum_skipna (map Premium_Amount (load_and_prepare_data example_portfolio)) = Fin 1000000
   \<and> sum_skipna (map Previous_Claims (load_and_prepare_data example_portfolio)) = Fin 300
   \<and> (\<exists>rs. perform_stress_testing (load_and_prepare_data example_portfolio) = Inr rs
        \<and> Scenario (rs ! 3) = ''Severe Stress''
        \<and> Required_Reserves (rs ! 3) = Fin 150000
        \<and> Stressed_Claims_Exposure (rs ! 3) = Fin 600000
        \<and> Capital_Adequacy (rs ! 3) = Fin (- 450000)
        \<and> Adequacy_Status (rs ! 3) = ''Inadequate'')"
proof -
  let ?df = "load_and_prepare_data example_portfolio"
  have ne: "?df \<noteq> []" by (simp add: load_and_prepare_data_def example_portfolio_def)
  have tp: "sum_skipna (map Premium_Amount ?df) = Fin 1000000" by code_simp
  have tc: "sum_skipna (map Previous_Claims ?df) = Fin 300" by code_simp
  have sc: "scenarios ! 3 = (''Severe Stress'', \<lparr>claims_multiplier = 2, premium_multiplier = 1,
          description = ''100% increase in claims frequency''\<rparr>)"
    by (simp add: scenarios_def)
  from stress_premium_based_only [OF ne] obtain rs where
    rs: "perform_stress_testing ?df = Inr rs" and
    row: "\<forall>i<6.
      (let r = rs ! i; name = fst (scenarios ! i); params = snd (scenarios ! i);
           stressed_premiums =
             fl_mul (sum_skipna (map Premium_Amount ?df)) (Fin (premium_multiplier params));
           exposure =
             fl_mul (fl_mul (sum_skipna (map Previous_Claims ?df)) (Fin (claims_multiplier params)))
               (Fin 1000)
       in Scenario r = name
          \<and> Stressed_Premiums r = stressed_premiums
          \<and> Required_Reserves r = fl_mul stressed_premiums (Fin (15 / 100))
          \<and> Stressed_Claims_Exposure r = exposure
          \<and> Capital_Adequacy r = fl_sub (Required_Reserves r) exposure
          \<and> (Adequacy_Status r = ''Adequate'' \<longleftrightarrow> fl_ge (Capital_Adequacy r) (Fin 0))
          \<and> (Adequacy_Status r = ''Inadequate'' \<longleftrightarrow> \<not> fl_ge (Capital_Adequacy r) (Fin 0)))"
    by blast
  from row have r3: "Scenario (rs ! 3) = ''Severe Stress''
      \<and> Required_Reserves (rs ! 3) = Fin 150000
      \<and> Stressed_Claims_Exposure (rs ! 3) = Fin 600000
      \<and> Capital_Adequacy (rs ! 3) = Fin (- 450000)
      \<and> Adequacy_Status (rs ! 3) = ''Inadequate''"
    by (simp add: Let_def sc tp tc fl_sub_def fl_ge_def fl_le_def)
  show ?thesis using ne tp tc rs r3 by blast
qed

text \<open>
  C8. For every portfolio with at least one policy the first result of the stress test is the
  Base Case with both multipliers 1, and it is the only result of that name. Its premiums
  and claims are the sums of the premium and claims columns unchanged, its required reserves
  are the sum of the premiums times 0.15, its exposure is the sum of the claims times 1000,
  and its adequacy is the difference of the two.
\<close>

theorem base_case_unstressed:
  "df \<noteq> [] \<Longrightarrow>
     (\<exists>rs. perform_stress_testing df = Inr rs
        \<and> (let r = hd rs;
                premiums = sum_skipna (map Premium_Amount df);
                claims = sum_skipna (map Previous_Claims df)
            in Scenario r = ''Base Case''
               \<and> Claims_Multiplier r = Fin 1 \<and> Premium_Multiplier r = Fin 1
               \<and> Stressed_Premiums r = premiums
               \<and> Stressed_Claims r = claims
               \<and> Required_Reserves r = fl_mul premiums (Fin (15 / 100))
               \<and> Stressed_Claims_Exposure r = fl_mul claims (Fin 1000)
               \<and> Capital_Adequacy r
                   = fl_sub (fl_mul premiums (Fin (15 / 100))) (fl_mul claims (Fin 1000))
               \<and> filter (\<lambda>r. Scenario r = ''Base Case'') rs = [r]))"
proof -
  assume ne: "df \<noteq> []"
  let ?base = "portfolio_metrics df"
  let ?f = "\<lambda>item. projr (stress_scenario ?base item)"
  from portfolio_metrics_nonempty [OF ne] have
    tp: "total_premiums ?base = NpFloat (sum_skipna (map Premium_Amount df))" and
    tc: "total_claims ?base = NpFloat (sum_skipna (map Previous_Claims df))" by simp_all
  have ok: "stress_scenario ?base item = Inr (?f item)" for item
    by (simp add: stress_scenario_numpy [OF tp tc])
  have rs: "perform_stress_testing df = Inr (map ?f scenarios)"
    using stress_loop_returns [of ?base ?f scenarios "[]", OF ok]
    by (simp add: perform_stress_testing_def)
  have "let r = hd (map ?f scenarios);
            premiums = sum_skipna (map Premium_Amount df);
            claims = sum_skipna (map Previous_Claims df)
        in Scenario r = ''Base Case''
           \<and> Claims_Multiplier r = Fin 1 \<and> Premium_Multiplier r = Fin 1
           \<and> Stressed_Premiums r = premiums
           \<and> Stressed_Claims r = claims
           \<and> Required_Reserves r = fl_mul premiums (Fin (15 / 100))
           \<and> Stressed_Claims_Exposure r = fl_mul claims (Fin 1000)
           \<and> Capital_Adequacy r
               = fl_sub (fl_mul premiums (Fin (15 / 100))) (fl_mul claims (Fin 1000))
           \<and> filter (\<lambda>r. Scenario r = ''Base Case'') (map ?f scenarios) = [r]"
    by (simp add: scenarios_def Let_def stress_scenario_numpy [OF tp tc] fl_mul_one)
  with rs show ?thesis by blast
qed

theorem base_case_unstressed_witness:
  "load_and_prepare_data example_portfolio \<noteq> []
   \<and> (\<exists>rs. perform_stress_testing (load_and_prepare_data example_portfolio) = Inr rs
        \<and> Scenario (hd rs) = ''Base Case''
        \<and> Stressed_Premiums (hd rs) = Fin 1000000
        \<and> Stressed_Claims (hd rs) = Fin 300
        \<and> Required_Reserves (hd rs) = Fin 150000
        \<and> Stressed_Claims_Exposure (hd rs) = Fin 300000
        \<and> Capital_Adequacy (hd rs) = Fin (- 150000))"
proof -
  let ?df = "load_and_prepare_data example_portfolio"
  have ne: "?df \<noteq> []" by (simp add: load_and_prepare_data_def example_portfolio_def)
  have tp: "sum_skipna (map Premium_Amount ?df) = Fin 1000000" by code_simp
  have tc: "sum_skipna (map Previous_Claims ?df) = Fin 300" by code_simp
  from base_case_unstressed [OF ne] obtain rs where
    rs: "perform_stress_testing ?df = Inr rs" and
    r: "Scenario (hd rs) = ''Base Case''
      \<and> Stressed_Premiums (hd rs) = Fin 1000000
      \<and> Stressed_Claims (hd rs) = Fin 300
      \<and> Required_Reserves (hd rs) = Fin 150000
      \<and> Stressed_Claims_Exposure (hd rs) = Fin 300000
      \<and> Capital_Adequacy (hd rs) = Fin (- 150000)"
    by (auto simp: Let_def tp tc fl_sub_def)
  show ?thesis using ne rs r by (intro conjI exI [of _ rs]) simp_all
qed

lemma stress_scenario_guarded_ratio:
  "stress_scenario base item = Inr r \<Longrightarrow> Stressed_Claims_Exposure r = Fin 0 \<Longrightarrow>
     Capital_Ratio r = Fin 0"
  by (auto simp: stress_scenario_def Let_def sc_gt_def fl_gt_def
      split: sum.splits if_splits)

lemma exposure_zero_iff:
  "item \<in> set scenarios \<Longrightarrow>
     fl_mul (fl_mul tc (Fin (claims_multiplier (snd item)))) (Fin 1000) = Fin 0 \<longleftrightarrow> tc = Fin 0"
  by (auto simp: scenarios_def fl_mul_Fin_eq_zero)

text \<open>
  C9. Whenever the body of the stress loop returns a result whose stressed claims exposure is
  0, the capital ratio of that result is 0: the quotient is only taken when the exposure is
  positive. For a table with at least one row the stress test returns its six results, none
  of its divisions raising; in each of them the exposure is 0 exactly when the sum of the
  claims column is 0, and then the capital ratio is 0.
\<close>

theorem capital_ratio_zero_when_no_exposure:
  "(stress_scenario base item = Inr r \<and> Stressed_Claims_Exposure r = Fin 0 \<longrightarrow>
      Capital_Ratio r = Fin 0)
   \<and> (df \<noteq> [] \<longrightarrow>
        (\<exists>rs. perform_stress_testing df = Inr rs \<and> length rs = 6
           \<and> (\<forall>r\<in>set rs.
                 (Stressed_Claims_Exposure r = Fin 0
                    \<longleftrightarrow> sum_skipna (map Previous_Claims df) = Fin 0)
                 \<and> (Stressed_Claims_Exposure r = Fin 0 \<longrightarrow> Capital_Ratio r = Fin 0))))"
proof (intro conjI impI)
  assume "stress_scenario base item = Inr r \<and> Stressed_Claims_Exposure r = Fin 0"
  then show "Capital_Ratio r = Fin 0" using stress_scenario_guarded_ratio by blast
next
  assume ne: "df \<noteq> []"
  let ?base = "portfolio_metrics df"
  let ?f = "\<lambda>item. projr (stress_scenario ?base item)"
  from portfolio_metrics_nonempty [OF ne] have
    tp: "total_premiums ?base = NpFloat (sum_skipna (map Premium_Amount df))" and
    tc: "total_claims ?base = NpFloat (sum_skipna (map Previous_Claims df))" by simp_all
  have ok: "stress_scenario ?base item = Inr (?f item)" for item
    by (simp add: stress_scenario_numpy [OF tp tc])
  have rs: "perform_stress_testing df = Inr (map ?f scenarios)"
    using stress_loop_returns [of ?base ?f scenarios "[]", OF ok]
    by (simp add: perform_stress_testing_def)
  have "(Stressed_Claims_Exposure r = Fin 0 \<longleftrightarrow> sum_skipna (map Previous_Claims df) = Fin 0)
      \<and> (Stressed_Claims_Exposure r = Fin 0 \<longrightarrow> Capital_Ratio r = Fin 0)"
    if "r \<in> set (map ?f scenarios)" for r
  proof -
    from that obtain item where item: "item \<in> set scenarios" and r: "r = ?f item" by auto
    have e: "Stressed_Claims_Exposure r
        = fl_mul (fl_mul (sum_skipna (map Previous_Claims df)) (Fin (claims_multiplier (snd item))))
            (Fin 1000)"
      by (simp add: r stress_scenario_numpy [OF tp tc])
    have "stress_scenario ?base item = Inr r" using ok r by simp
    then show ?thesis
      using stress_scenario_guarded_ratio [of ?base item r] exposure_zero_iff [OF item] e
      by simp
  qed
  then show "\<exists>rs. perform_stress_testing df = Inr rs \<and> length rs = 6
           \<and> (\<forall>r\<in>set rs.
                 (Stressed_Claims_Exposure r = Fin 0
                    \<longleftrightarrow> sum_skipna (map Previous_Claims df) = Fin 0)
                 \<and> (Stressed_Claims_Exposure r = Fin 0 \<longrightarrow> Capital_Ratio r = Fin 0))"
    using rs by (intro exI [of _ "map ?f scenarios"]) (simp add: length_scenarios)
qed

theorem capital_ratio_zero_when_no_exposure_witness:
  "load_and_prepare_data claim_free_portfolio \<noteq> []
   \<and> sum_skipna (map Previous_Claims (load_and_prepare_data claim_free_portfolio)) = Fin 0
   \<and> (\<exists>rs. perform_stress_testing (load_and_prepare_data claim_free_portfolio) = Inr rs
        \<and> map Stressed_Claims_Exposure rs = [Fin 0, Fin 0, Fin 0, Fin 0, Fin 0, Fin 0]
        \<and> map Capital_Ratio rs = [Fin 0, Fin 0, Fin 0, Fin 0, Fin 0, Fin 0])"
proof -
  let ?df = "load_and_prepare_data claim_free_portfolio"
  have ne: "?df \<noteq> []" by (simp add: load_and_prepare_data_def claim_free_portfolio_def)
  have tc: "sum_skipna (map Previous_Claims ?df) = Fin 0" by code_simp
  from capital_ratio_zero_when_no_exposure [where df = ?df] ne obtain rs where
    rs: "perform_stress_testing ?df = Inr rs" and len: "length rs = 6" and
    all: "\<forall>r\<in>set rs.
         (Stressed_Claims_Exposure r = Fin 0 \<longleftrightarrow> sum_skipna (map Previous_Claims ?df) = Fin 0)
         \<and> (Stressed_Claims_Exposure r = Fin 0 \<longrightarrow> Capital_Ratio r = Fin 0)"
    by blast
  from all tc have z: "\<forall>r\<in>set rs. Stressed_Claims_Exposure r = Fin 0 \<and> Capital_Ratio r = Fin 0"
    by simp
  from len obtain a b c d e f where l: "rs = [a, b, c, d, e, f]"
    by (auto simp: length_Suc_conv eval_nat_numeral)
  from z have "map Stressed_Claims_Exposure rs = [Fin 0, Fin 0, Fin 0, Fin 0, Fin 0, Fin 0]
      \<and> map Capital_Ratio rs = [Fin 0, Fin 0, Fin 0, Fin 0, Fin 0, Fin 0]"
    unfolding l by simp
  then show ?thesis using ne tc rs by (intro conjI exI [of _ rs]) simp_all
qed

section \<open>Aggregation by risk category: groups, counts and totals\<close>

lemma sum_list_delta:
  fixes v :: "'a::comm_monoid_add"
  shows "distinct ks \<Longrightarrow> (\<Sum>k\<leftarrow>ks. if a = k then v else 0) = (if a \<in> set ks then v else 0)"
  by (induction ks) auto

lemma sum_list_groups:
  fixes g :: "'r \<Rightarrow> 'a::comm_monoid_add"
  assumes d: "distinct ks"
  shows "key ` set xs \<subseteq> set ks \<Longrightarrow>
     (\<Sum>k\<leftarrow>ks. sum_list (map g (filter (\<lambda>x. key x = k) xs))) = sum_list (map g xs)"
proof (induction xs)
  case Nil
  then show ?case by simp
next
  case (Cons x xs)
  then have x: "key x \<in> set ks" and sub: "key ` set xs \<subseteq> set ks" by auto
  have "(\<Sum>k\<leftarrow>ks. sum_list (map g (filter (\<lambda>y. key y = k) (x # xs))))
      = (\<Sum>k\<leftarrow>ks. (if key x = k then g x else 0) + sum_list (map g (filter (\<lambda>y. key y = k) xs)))"
    by (rule arg_cong [where f = sum_list]) auto
  also have "\<dots> = (\<Sum>k\<leftarrow>ks. if key x = k then g x else 0)
      + (\<Sum>k\<leftarrow>ks. sum_list (map g (filter (\<lambda>y. key y = k) xs)))"
    by (simp add: sum_list_addf)
  also have "\<dots> = g x + sum_list (map g xs)"
    using sum_list_delta [OF d, of "key x" "g x"] x Cons.IH [OF sub] by simp
  finally show ?case by simp
qed

lemma set_group_keys: "set (group_keys df) = Risk_Category ` set df"
  by (simp add: group_keys_def)

lemma distinct_group_keys: "distinct (group_keys df)"
  by (simp add: group_keys_def)

lemma group_rows_nonempty: "k \<in> set (group_keys df) \<Longrightarrow> group_rows df k \<noteq> []"
  by (auto simp: set_group_keys group_rows_def filter_empty_conv)

lemma groupby_agg_categories: "map Category (groupby_agg df) = group_keys df"
  by (simp add: groupby_agg_def round_agg_def agg_group_def Let_def comp_def)

lemma count_notna_sum:
  "count_notna (map f xs) = sum_list (map (\<lambda>r. if f r = NaN then 0 else 1) xs)"
  by (induction xs) (simp_all add: count_notna_def notna_def)

lemma groupby_agg_counts:
  "map Policy_Count (groupby_agg df)
     = map (\<lambda>k. count_notna (map Premium_Amount (group_rows df k))) (group_keys df)"
  by (simp add: groupby_agg_def round_agg_def agg_group_def Let_def comp_def)

lemma policy_counts_sum:
  "sum_list (map Policy_Count (groupby_agg df)) = count_notna (map Premium_Amount df)"
proof -
  have "sum_list (map Policy_Count (groupby_agg df))
      = (\<Sum>k\<leftarrow>group_keys df.
           sum_list (map (\<lambda>r. if Premium_Amount r = NaN then 0 else 1)
             (filter (\<lambda>r. Risk_Category r = k) df)))"
    by (simp add: groupby_agg_counts count_notna_sum group_rows_def)
  also have "\<dots> = sum_list (map (\<lambda>r. if Premium_Amount r = NaN then 0 else 1) df)"
    by (rule sum_list_groups [OF distinct_group_keys]) (simp add: set_group_keys)
  finally show ?thesis by (simp add: count_notna_sum)
qed

lemma group_sizes_sum: "(\<Sum>k\<leftarrow>group_keys df. length (group_rows df k)) = length df"
proof -
  have "(\<Sum>k\<leftarrow>group_keys df. length (group_rows df k))
      = (\<Sum>k\<leftarrow>group_keys df. sum_list (map (\<lambda>r. 1) (filter (\<lambda>r. Risk_Category r = k) df)))"
    by (simp add: group_rows_def sum_list_triv)
  also have "\<dots> = sum_list (map (\<lambda>r. 1) df)"
    by (rule sum_list_groups [OF distinct_group_keys]) (simp add: set_group_keys)
  finally show ?thesis by (simp add: sum_list_triv)
qed

lemma count_notna_all: "NaN \<notin> set xs \<Longrightarrow> count_notna xs = length xs"
  by (induction xs) (auto simp: count_notna_def notna_def)

lemma foldl_fl_add_fin:
  "\<forall>x\<in>set xs. fin_or_nan x \<Longrightarrow>
     foldl fl_add (Fin a) (notna xs) = Fin (a + sum_list (map the_fin xs))"
proof (induction xs arbitrary: a)
  case Nil
  then show ?case by (simp add: notna_def)
next
  case (Cons x xs)
  then have ih: "\<And>b. foldl fl_add (Fin b) (notna xs) = Fin (b + sum_list (map the_fin xs))"
    by simp
  from Cons.prems have "fin_or_nan x" by simp
  then show ?case using ih
    by (cases x) (simp_all add: fin_or_nan_def notna_def add.assoc)
qed

lemma sum_skipna_fin:
  "\<forall>x\<in>set xs. fin_or_nan x \<Longrightarrow> sum_skipna xs = Fin (sum_list (map the_fin xs))"
  using foldl_fl_add_fin [of xs 0] by (simp add: sum_skipna_def)

lemma agg_group_total_premiums:
  assumes "\<forall>r\<in>set df. fin_or_nan (Premium_Amount r)"
  shows "Total_Premiums (agg_group df k)
     = Fin (sum_list (map (\<lambda>r. the_fin (Premium_Amount r)) (filter (\<lambda>r. Risk_Category r = k) df)))"
proof -
  have "\<forall>x\<in>set (map Premium_Amount (group_rows df k)). fin_or_nan x"
    using assms by (simp add: group_rows_def)
  from sum_skipna_fin [OF this] show ?thesis
    by (simp add: agg_group_def Let_def group_rows_def comp_def)
qed

lemma capital_adequacy_sum_premiums:
  "Sum_Premiums (calculate_capital_adequacy_ratio (calculate_reserve_requirements df))
     = sum_skipna (map Total_Premiums (groupby_agg df))"
  by (simp add: calculate_capital_adequacy_ratio_def calculate_reserve_requirements_def Let_def
      comp_def reserve_row_def)

lemma groupby_agg_total_premiums:
  "map Total_Premiums (groupby_agg df)
     = map (\<lambda>k. round2 (sum_skipna (map Premium_Amount (group_rows df k)))) (group_keys df)"
  by (simp add: groupby_agg_def round_agg_def agg_group_def Let_def comp_def)

lemma policy_counts_sum_all_present:
  "NaN \<notin> set (map Premium_Amount df) \<Longrightarrow>
     sum_list (map Policy_Count (groupby_agg df)) = length df"
  using count_notna_all [of "map Premium_Amount df"] by (simp add: policy_counts_sum)

lemma rint_of_int: "rint (of_int m) = m"
  by (simp add: rint_def)

lemma round2_whole: "x \<in> \<int> \<Longrightarrow> round2 (Fin x) = Fin x"
proof -
  assume "x \<in> \<int>"
  then obtain m where x: "x = of_int m" by (auto elim: Ints_cases)
  have "x * 100 = of_int (m * 100)" by (simp add: x)
  then have "rint (x * 100) = m * 100" by (simp only: rint_of_int)
  then show ?thesis by (simp add: x)
qed

lemma whole_cell_cases: "whole_cell x \<Longrightarrow> fin_or_nan x \<and> the_fin x \<in> \<int>"
proof (cases x)
  case (Fin a)
  assume "whole_cell x"
  with Fin have "of_int \<lfloor>a\<rfloor> = a" by simp
  then have "a \<in> \<int>" by (metis Ints_of_int)
  with Fin show ?thesis by (simp add: fin_or_nan_def)
qed (simp_all add: fin_or_nan_def)

lemma sum_list_Ints:
  fixes f :: "'r \<Rightarrow> rat"
  shows "(\<forall>x\<in>set xs. f x \<in> \<int>) \<Longrightarrow> sum_list (map f xs) \<in> \<int>"
  by (induction xs) simp_all

lemma whole_premiums_totals:
  assumes w: "whole_premiums df"
  shows "sum_skipna (map Total_Premiums (groupby_agg df)) = sum_skipna (map Premium_Amount df)"
proof -
  let ?pv = "\<lambda>r. the_fin (Premium_Amount r)"
  let ?S = "\<lambda>k. sum_list (map ?pv (filter (\<lambda>r. Risk_Category r = k) df))"
  from w have cell: "\<forall>r\<in>set df. whole_cell (Premium_Amount r)"
    by (simp add: whole_premiums_def list_all_iff)
  then have h: "\<forall>r\<in>set df. fin_or_nan (Premium_Amount r)"
    and z: "\<forall>r\<in>set df. ?pv r \<in> \<int>"
    using whole_cell_cases by blast+
  have S: "?S k \<in> \<int>" for k
    by (rule sum_list_Ints) (use z in simp)
  have "map Total_Premiums (groupby_agg df) = map (\<lambda>k. round2 (Fin (?S k))) (group_keys df)"
    by (simp add: groupby_agg_def round_agg_def comp_def agg_group_total_premiums [OF h])
  also have "\<dots> = map (\<lambda>k. Fin (?S k)) (group_keys df)"
    by (simp only: round2_whole [OF S])
  finally have "sum_skipna (map Total_Premiums (groupby_agg df))
      = sum_skipna (map (\<lambda>k. Fin (?S k)) (group_keys df))" by simp
  also have "\<dots> = Fin (sum_list (map the_fin (map (\<lambda>k. Fin (?S k)) (group_keys df))))"
    by (rule sum_skipna_fin) (simp add: fin_or_nan_def)
  also have "\<dots> = Fin (\<Sum>k\<leftarrow>group_keys df. ?S k)" by (simp add: comp_def)
  also have "(\<Sum>k\<leftarrow>group_keys df. ?S k) = sum_list (map ?pv df)"
    by (rule sum_list_groups [OF distinct_group_keys]) (simp add: set_group_keys)
  also have "Fin (sum_list (map ?pv df)) = sum_skipna (map Premium_Amount df)"
  proof -
    have "\<forall>x\<in>set (map Premium_Amount df). fin_or_nan x" using h by simp
    from sum_skipna_fin [OF this] show ?thesis by (simp add: comp_def)
  qed
  finally show ?thesis .
qed

text \<open>
  The \<open>Policy Count\<close> column is the \<open>count\<close> of the premium cells of a group, which leaves
  out a policy whose premium cell is empty: for a table of one such policy the counts add up
  to 0, where the table has one row and \<open>total_policies\<close> of the stress test is 1.
\<close>

lemma policy_count_skips_missing_premium:
  "sum_list (map Policy_Count (groupby_agg (load_and_prepare_data [missing_premium_policy]))) = 0
   \<and> length (load_and_prepare_data [missing_premium_policy]) = 1
   \<and> total_policies (portfolio_metrics (load_and_prepare_data [missing_premium_policy])) = 1"
  by code_simp

text \<open>
  C7, as amended. For every table with at least one row, aggregation by risk category
  partitions the rows: the categories of the aggregate rows are distinct and are exactly
  the categories that occur in the table, so a category without rows has no aggregate row,
  every group has at least one row, and the group sizes add up to the number of rows; when
  no premium is missing the Policy Counts add up to the number of rows as well. The Total
  Premiums of a group are the sum of its premiums rounded to two decimals, and the sum of
  this column is what the capital adequacy computation reports as the premiums of the
  portfolio. It equals the sum of the premium column when the rounding changes nothing, as
  for whole-number premiums.
\<close>

theorem aggregation_partitions_rows:
  "df \<noteq> [] \<Longrightarrow>
     distinct (map Category (groupby_agg df))
     \<and> set (map Category (groupby_agg df)) = Risk_Category ` set df
     \<and> (\<forall>k\<in>set (map Category (groupby_agg df)). group_rows df k \<noteq> [])
     \<and> (\<Sum>k\<leftarrow>group_keys df. length (group_rows df k)) = length df
     \<and> (NaN \<notin> set (map Premium_Amount df) \<longrightarrow>
          sum_list (map Policy_Count (groupby_agg df)) = length df)
     \<and> map Total_Premiums (groupby_agg df)
          = map (\<lambda>k. round2 (sum_skipna (map Premium_Amount (group_rows df k)))) (group_keys df)
     \<and> Sum_Premiums (calculate_capital_adequacy_ratio (calculate_reserve_requirements df))
          = sum_skipna (map Total_Premiums (groupby_agg df))
     \<and> (whole_premiums df \<longrightarrow>
          sum_skipna (map Total_Premiums (groupby_agg df))
            = sum_skipna (map Premium_Amount df))"
proof (intro conjI impI ballI)
  show "distinct (map Category (groupby_agg df))"
    by (simp only: groupby_agg_categories distinct_group_keys)
  show "set (map Category (groupby_agg df)) = Risk_Category ` set df"
    by (simp only: groupby_agg_categories set_group_keys)
  show "group_rows df k \<noteq> []" if "k \<in> set (map Category (groupby_agg df))" for k
    using that group_rows_nonempty [of k df] by (simp add: groupby_agg_categories)
  show "(\<Sum>k\<leftarrow>group_keys df. length (group_rows df k)) = length df"
    by (rule group_sizes_sum)
  show "sum_list (map Policy_Count (groupby_agg df)) = length df"
    if "NaN \<notin> set (map Premium_Amount df)"
    using that by (rule policy_counts_sum_all_present)
  show "map Total_Premiums (groupby_agg df)
      = map (\<lambda>k. round2 (sum_skipna (map Premium_Amount (group_rows df k)))) (group_keys df)"
    by (rule groupby_agg_total_premiums)
  show "Sum_Premiums (calculate_capital_adequacy_ratio (calculate_reserve_requirements df))
      = sum_skipna (map Total_Premiums (groupby_agg df))"
    by (rule capital_adequacy_sum_premiums)
  show "sum_skipna (map Total_Premiums (groupby_agg df)) = sum_skipna (map Premium_Amount df)"
    if "whole_premiums df"
    using that by (rule whole_premiums_totals)
qed

theorem aggregation_partitions_rows_witness:
  "load_and_prepare_data whole_number_table \<noteq> []
   \<and> map Premium_Amount (load_and_prepare_data whole_number_table)
       = [Fin 1000, Fin 2500, Fin 1800, Fin 1000]
   \<and> whole_premiums (load_and_prepare_data whole_number_table)
   \<and> map Category (groupby_agg (load_and_prepare_data whole_number_table))
       = [''Low'', ''Medium'', ''Very High'']
   \<and> map Policy_Count (groupby_agg (load_and_prepare_data whole_number_table)) = [2, 1, 1]
   \<and> sum_list (map Policy_Count (groupby_agg (load_and_prepare_data whole_number_table)))
       = length (load_and_prepare_data whole_number_table)
   \<and> map Total_Premiums (groupby_agg (load_and_prepare_data whole_number_table))
       = [Fin 3500, Fin 1800, Fin 1000]
   \<and> sum_skipna (map Total_Premiums (groupby_agg (load_and_prepare_data whole_number_table)))
       = sum_skipna (map Premium_Amount (load_and_prepare_data whole_number_table))
   \<and> sum_skipna (map Premium_Amount (load_and_prepare_data whole_number_table)) = Fin 6300"
proof -
  let ?df = "load_and_prepare_data whole_number_table"
  have ne: "?df \<noteq> []" by (simp add: load_and_prepare_data_def whole_number_table_def)
  have v: "map Premium_Amount ?df = [Fin 1000, Fin 2500, Fin 1800, Fin 1000]" by code_simp
  have nn: "NaN \<notin> set (map Premium_Amount ?df)" unfolding v by simp
  have len: "length ?df = 4" by (simp add: load_and_prepare_data_def whole_number_table_def)
  have "list_all whole_cell (map Premium_Amount ?df)" unfolding v by simp
  then have w: "whole_premiums ?df"
    by (simp add: whole_premiums_def len list_all_iff)
  have c: "map Category (groupby_agg ?df) = [''Low'', ''Medium'', ''Very High'']" by code_simp
  have p: "map Policy_Count (groupby_agg ?df) = [2, 1, 1]" by code_simp
  have t: "map Total_Premiums (groupby_agg ?df) = [Fin 3500, Fin 1800, Fin 1000]" by code_simp
  have s: "sum_skipna (map Premium_Amount ?df) = Fin 6300" by code_simp
  note parts = aggregation_partitions_rows [OF ne]
  have cnt: "sum_list (map Policy_Count (groupby_agg ?df)) = length ?df"
    using parts [THEN conjunct2, THEN conjunct2, THEN conjunct2, THEN conjunct2, THEN conjunct1]
      nn by (rule mp)
  have tot: "sum_skipna (map Total_Premiums (groupby_agg ?df))
      = sum_skipna (map Premium_Amount ?df)"
    using parts [THEN conjunct2, THEN conjunct2, THEN conjunct2, THEN conjunct2, THEN conjunct2,
      THEN conjunct2, THEN conjunct2] w by (rule mp)
  show ?thesis
    by (intro conjI) (rule ne v w c p cnt t tot s)+
qed

text \<open>
  C7 as the specification states it fails on the premiums. In a table with two policies in
  different categories whose premiums are 100.004 and 200.004 the Total Premiums of the two
  groups are 100 and 200, which add up to 300, not to the 300.008 of the premium column.
\<close>

theorem aggregation_totals_counterexample:
  "load_and_prepare_data third_decimal_table \<noteq> []
   \<and> map Category (groupby_agg (load_and_prepare_data third_decimal_table))
       = [''Low'', ''Medium'']
   \<and> map Total_Premiums (groupby_agg (load_and_prepare_data third_decimal_table))
       = [Fin 100, Fin 200]
   \<and> sum_skipna (map Total_Premiums (groupby_agg (load_and_prepare_data third_decimal_table)))
       = Fin 300
   \<and> sum_skipna (map Premium_Amount (load_and_prepare_data third_decimal_table))
       = Fin (300008 / 1000)
   \<and> sum_skipna (map Total_Premiums (groupby_agg (load_and_prepare_data third_decimal_table)))
       \<noteq> sum_skipna (map Premium_Amount (load_and_prepare_data third_decimal_table))"
  by code_simp

section \<open>Reserve requirements of every category of a table\<close>

lemma required_is_max_row:
  assumes "Total_Premiums a \<noteq> NaN" and "Total_Claims a \<noteq> NaN"
  shows "Total_Required_Reserves (reserve_row a) = max_skipna (reserve_candidates (reserve_row a))
    \<and> Total_Required_Reserves (reserve_row a) \<in> set (reserve_candidates (reserve_row a))
    \<and> (\<forall>c\<in>set (reserve_candidates (reserve_row a)).
          fl_le c (Total_Required_Reserves (reserve_row a)))"
proof -
  have nn: "NaN \<notin> set (reserve_candidates (reserve_row a))"
    using assms by (rule reserve_candidates_notnan)
  have tr: "Total_Required_Reserves (reserve_row a) = max_skipna (reserve_candidates (reserve_row a))"
    by (simp add: reserve_candidates_def reserve_row_fields)
  have ne: "reserve_candidates (reserve_row a) \<noteq> []"
    by (simp add: reserve_candidates_def)
  show ?thesis using max_skipna_is_max [OF nn ne] tr by simp
qed

lemma reserve_candidates_formulas:
  "reserve_candidates (reserve_row a)
     = [fl_mul (Total_Premiums a) (Fin (15 / 100)),
        fl_mul (fl_mul (Total_Claims a) (Fin 1000)) (Fin 3),
        fl_mul (Total_Premiums a) (Fin (risk_multiplier (Category a))),
        fl_mul (Total_Premiums a) (Fin (5 / 100))]"
  by (simp add: reserve_candidates_def reserve_row_fields)

lemma round2_notnan: "round2 x = NaN \<longleftrightarrow> x = NaN"
  by (cases x) simp_all

lemma groupby_agg_totals_notnan:
  assumes h: "\<forall>r\<in>set df. fin_or_nan (Premium_Amount r) \<and> fin_or_nan (Previous_Claims r)"
    and a: "a \<in> set (groupby_agg df)"
  shows "Total_Premiums a \<noteq> NaN \<and> Total_Claims a \<noteq> NaN"
proof -
  from a obtain k where k: "a = round_agg (agg_group df k)"
    by (auto simp: groupby_agg_def)
  have "\<forall>x\<in>set (map Premium_Amount (group_rows df k)). fin_or_nan x"
    using h by (simp add: group_rows_def)
  from sum_skipna_fin [OF this] have p: "sum_skipna (map Premium_Amount (group_rows df k)) \<noteq> NaN"
    by simp
  have "\<forall>x\<in>set (map Previous_Claims (group_rows df k)). fin_or_nan x"
    using h by (simp add: group_rows_def)
  from sum_skipna_fin [OF this] have c: "sum_skipna (map Previous_Claims (group_rows df k)) \<noteq> NaN"
    by simp
  show ?thesis using p c
    by (simp add: k round_agg_def agg_group_def Let_def round2_notnan)
qed

text \<open>
  C1. For every category aggregate whose premium and claims totals are numbers (not NaN), the
  four candidate amounts are total premiums times 0.15, total claims times 1000 times 3,
  total premiums times the multiplier of the category (0.10, 0.15, 0.25 and 0.35 for Low,
  Medium, High and Very High) and total premiums times 0.05, and the total required reserves
  are their maximum: one of the four, and at least each of them. With positive premiums and
  non-negative claims the total is strictly below the sum of the four and strictly above
  their mean. Every aggregate of a table whose premium and claims cells are finite numbers or
  empty has such totals, so in every row of the reserve analysis of such a table the total
  required reserves are the maximum of the four candidates of that row.
\<close>

theorem total_required_is_max:
  "(Total_Premiums a \<noteq> NaN \<and> Total_Claims a \<noteq> NaN \<longrightarrow>
      reserve_candidates (reserve_row a)
        = [fl_mul (Total_Premiums a) (Fin (15 / 100)),
           fl_mul (fl_mul (Total_Claims a) (Fin 1000)) (Fin 3),
           fl_mul (Total_Premiums a) (Fin (risk_multiplier (Category a))),
           fl_mul (Total_Premiums a) (Fin (5 / 100))]
      \<and> map risk_multiplier [''Low'', ''Medium'', ''High'', ''Very High'']
           = [10 / 100, 15 / 100, 25 / 100, 35 / 100]
      \<and> Total_Required_Reserves (reserve_row a)
           = max_skipna (reserve_candidates (reserve_row a))
      \<and> Total_Required_Reserves (reserve_row a) \<in> set (reserve_candidates (reserve_row a))
      \<and> (\<forall>c\<in>set (reserve_candidates (reserve_row a)).
             fl_le c (Total_Required_Reserves (reserve_row a)))
      \<and> (\<forall>p c. Total_Premiums a = Fin p \<and> Total_Claims a = Fin c \<and> 0 < p \<and> 0 \<le> c \<longrightarrow>
             fl_lt (Total_Required_Reserves (reserve_row a))
               (sum_skipna (reserve_candidates (reserve_row a)))
             \<and> fl_lt (mean_skipna (reserve_candidates (reserve_row a)))
                 (Total_Required_Reserves (reserve_row a))))
   \<and> ((\<forall>r\<in>set df. fin_or_nan (Premium_Amount r) \<and> fin_or_nan (Previous_Claims r)) \<longrightarrow>
        (\<forall>res\<in>set (calculate_reserve_requirements df).
           Total_Required_Reserves res = max_skipna (reserve_candidates res)
           \<and> Total_Required_Reserves res \<in> set (reserve_candidates res)
           \<and> (\<forall>c\<in>set (reserve_candidates res). fl_le c (Total_Required_Reserves res))))"
proof (intro conjI impI)
  assume "Total_Premiums a \<noteq> NaN \<and> Total_Claims a \<noteq> NaN"
  then have tp: "Total_Premiums a \<noteq> NaN" and tc: "Total_Claims a \<noteq> NaN" by simp_all
  show "reserve_candidates (reserve_row a)
        = [fl_mul (Total_Premiums a) (Fin (15 / 100)),
           fl_mul (fl_mul (Total_Claims a) (Fin 1000)) (Fin 3),
           fl_mul (Total_Premiums a) (Fin (risk_multiplier (Category a))),
           fl_mul (Total_Premiums a) (Fin (5 / 100))]"
    by (rule reserve_candidates_formulas)
  show "map risk_multiplier [''Low'', ''Medium'', ''High'', ''Very High'']
           = [10 / 100, 15 / 100, 25 / 100, 35 / 100]"
    by (rule risk_multiplier_table)
  show "Total_Required_Reserves (reserve_row a) = max_skipna (reserve_candidates (reserve_row a))"
    using required_is_max_row [OF tp tc] by blast
  show "Total_Required_Reserves (reserve_row a) \<in> set (reserve_candidates (reserve_row a))"
    using required_is_max_row [OF tp tc] by blast
  show "\<forall>c\<in>set (reserve_candidates (reserve_row a)).
           fl_le c (Total_Required_Reserves (reserve_row a))"
    using required_is_max_row [OF tp tc] by blast
  show "\<forall>p c. Total_Premiums a = Fin p \<and> Total_Claims a = Fin c \<and> 0 < p \<and> 0 \<le> c \<longrightarrow>
             fl_lt (Total_Required_Reserves (reserve_row a))
               (sum_skipna (reserve_candidates (reserve_row a)))
             \<and> fl_lt (mean_skipna (reserve_candidates (reserve_row a)))
                 (Total_Required_Reserves (reserve_row a))"
    using required_not_sum_nor_mean [of a] by blast
next
  assume h: "\<forall>r\<in>set df. fin_or_nan (Premium_Amount r) \<and> fin_or_nan (Previous_Claims r)"
  show "\<forall>res\<in>set (calculate_reserve_requirements df).
           Total_Required_Reserves res = max_skipna (reserve_candidates res)
           \<and> Total_Required_Reserves res \<in> set (reserve_candidates res)
           \<and> (\<forall>c\<in>set (reserve_candidates res). fl_le c (Total_Required_Reserves res))"
  proof
    fix res
    assume "res \<in> set (calculate_reserve_requirements df)"
    then obtain b where b: "b \<in> set (groupby_agg df)" and res: "res = reserve_row b"
      by (auto simp: calculate_reserve_requirements_def)
    from groupby_agg_totals_notnan [OF h b]
    have "Total_Premiums b \<noteq> NaN" and "Total_Claims b \<noteq> NaN" by simp_all
    then show "Total_Required_Reserves res = max_skipna (reserve_candidates res)
           \<and> Total_Required_Reserves res \<in> set (reserve_candidates res)
           \<and> (\<forall>c\<in>set (reserve_candidates res). fl_le c (Total_Required_Reserves res))"
      unfolding res by (rule required_is_max_row)
  qed
qed

theorem total_required_is_max_witness:
  "Total_Premiums example_aggregate \<noteq> NaN \<and> Total_Claims example_aggregate \<noteq> NaN
   \<and> reserve_candidates (reserve_row example_aggregate)
       = [Fin 15000, Fin 120000, Fin 10000, Fin 5000]
   \<and> Total_Required_Reserves (reserve_row example_aggregate) = Fin 120000
   \<and> sum_skipna (reserve_candidates (reserve_row example_aggregate)) = Fin 150000
   \<and> mean_skipna (reserve_candidates (reserve_row example_aggregate)) = Fin 37500
   \<and> map Previous_Claims (load_and_prepare_data mixed_table) = [Fin 0, Fin 0, Fin 1]
   \<and> map Premium_Amount (load_and_prepare_data mixed_table) = [Fin 1000, NaN, Fin (2505 / 10)]
   \<and> map reserve_candidates (calculate_reserve_requirements (load_and_prepare_data mixed_table))
       = [[Fin 150, Fin 0, Fin 100, Fin 50],
          [Fin (7515 / 200), Fin 3000, Fin (7515 / 200), Fin (2505 / 200)]]
   \<and> map Total_Required_Reserves
         (calculate_reserve_requirements (load_and_prepare_data mixed_table))
       = [Fin 150, Fin 3000]"
proof -
  let ?df = "load_and_prepare_data mixed_table"
  have tp: "Total_Premiums example_aggregate \<noteq> NaN \<and> Total_Claims example_aggregate \<noteq> NaN"
    by (simp add: example_aggregate_def)
  have rm: "risk_multiplier ''Low'' = 1 / 10"
    by (simp add: risk_multiplier_def risk_multipliers_def)
  note row = total_required_is_max [where a = example_aggregate and df = ?df, THEN conjunct1,
      rule_format, OF tp]
  note tab = total_required_is_max [where a = example_aggregate and df = ?df, THEN conjunct2]
  have cs: "reserve_candidates (reserve_row example_aggregate)
       = [Fin 15000, Fin 120000, Fin 10000, Fin 5000]"
    using row by (simp add: example_aggregate_def rm)
  have tr: "Total_Required_Reserves (reserve_row example_aggregate) = Fin 120000"
    using row unfolding cs by (simp add: max_skipna_def notna_def fl_max_def)
  have h: "\<forall>r\<in>set ?df. fin_or_nan (Premium_Amount r) \<and> fin_or_nan (Previous_Claims r)"
    by code_simp
  have c: "map Previous_Claims ?df = [Fin 0, Fin 0, Fin 1]" by code_simp
  have v: "map Premium_Amount ?df = [Fin 1000, NaN, Fin (2505 / 10)]" by code_simp
  have rc: "map reserve_candidates (calculate_reserve_requirements ?df)
       = [[Fin 150, Fin 0, Fin 100, Fin 50],
          [Fin (7515 / 200), Fin 3000, Fin (7515 / 200), Fin (2505 / 200)]]"
    by code_simp
  have "\<forall>res\<in>set (calculate_reserve_requirements ?df).
      Total_Required_Reserves res = max_skipna (reserve_candidates res)"
    using tab h by blast
  then have "map Total_Required_Reserves (calculate_reserve_requirements ?df)
      = map max_skipna (map reserve_candidates (calculate_reserve_requirements ?df))"
    by simp
  then have rt: "map Total_Required_Reserves (calculate_reserve_requirements ?df)
      = [Fin 150, Fin 3000]"
    unfolding rc by (simp add: max_skipna_def notna_def fl_max_def)
  show ?thesis using tp cs tr c v rc rt
    by (simp add: sum_skipna_def mean_skipna_def count_notna_def notna_def)
qed

end
